theory Spec2Isabelle
  imports
    Complex_Main
    "HOL-Library.Char_ord"
    "HOL-Library.List_Lexorder"
    "HOL-Library.AList"
begin

chapter \<open>A shallow embedding of the recipe engine's execution core\<close>

text \<open>
  The Python sources are embedded function by function. Exceptions are values of a sum
  type (\<open>Inl\<close> carries the exception), mutable objects are records that are passed in
  and returned, and loops are recursive functions. Python 2 \<open>str\<close> is \<open>string\<close>
  (a list of bytes), compared bytewise as Python 2 compares \<open>str\<close>.
\<close>

section \<open>Definitions\<close>

subsection \<open>Exceptions\<close>

datatype py_error = IndexError | ValueError string | TypeError | GreenletExit | SystemExit int

text \<open>A \<open>Path\<close> is opaque to the engine; \<open>str(path)\<close> is the string it carries.\<close>

datatype Path = Path string

fun str_of_Path :: "Path \<Rightarrow> string" where
  "str_of_Path (Path s) = s"

subsection \<open>Python built-ins used by the sources\<close>

text \<open>\<open>s.startswith(p)\<close> and \<open>s.endswith(p)\<close>.\<close>

definition startswith :: "string \<Rightarrow> string \<Rightarrow> bool" where
  "startswith s p = (take (length p) s = p)"

definition endswith :: "string \<Rightarrow> string \<Rightarrow> bool" where
  "endswith s p = (length p \<le> length s \<and> drop (length s - length p) s = p)"

text \<open>
  \<open>repr\<close> of an \<open>int\<close> (decimal digits, a leading minus sign) and of a Python 2
  \<open>str\<close>: single quotes unless the string holds a single quote and no double quote;
  the quote and the backslash are escaped, tab, newline and carriage return are written
  \<open>\t \n \r\<close>, every other byte outside the printable ASCII range is written
  \<open>\xNN\<close>.
\<close>

function dec_nat :: "nat \<Rightarrow> string" where
  "dec_nat n = (if n < 10 then [char_of (48 + n)] else dec_nat (n div 10) @ [char_of (48 + n mod 10)])"
  by pat_completeness auto
termination
  by (relation "measure id") auto

definition repr_int :: "int \<Rightarrow> string" where
  "repr_int i = (if i < 0 then CHR ''-'' # dec_nat (nat (- i)) else dec_nat (nat i))"

definition hexdigit :: "nat \<Rightarrow> char" where
  "hexdigit n = (if n < 10 then char_of (48 + n) else char_of (87 + n))"

definition repr_char :: "char \<Rightarrow> char \<Rightarrow> string" where
  "repr_char quote c =
     (if c = quote \<or> c = CHR 0x5C then [CHR 0x5C, c]
      else if c = CHR 0x09 then [CHR 0x5C, CHR ''t'']
      else if c = CHR 0x0A then [CHR 0x5C, CHR ''n'']
      else if c = CHR 0x0D then [CHR 0x5C, CHR ''r'']
      else if (of_char c :: nat) < 32 \<or> (of_char c :: nat) \<ge> 127
        then [CHR 0x5C, CHR ''x'', hexdigit ((of_char c :: nat) div 16), hexdigit ((of_char c :: nat) mod 16)]
      else [c])"

definition repr_str :: "string \<Rightarrow> string" where
  "repr_str s =
     (let quote = (if CHR 0x27 \<in> set s \<and> CHR 0x22 \<notin> set s then CHR 0x22 else CHR 0x27)
      in [quote] @ concat (map (repr_char quote) s) @ [quote])"


text \<open>
  The operator \<open>fmt % mapping\<close> on a Python 2 \<open>str\<close>, for a mapping whose every
  lookup succeeds with the empty string (\<open>collections.defaultdict(str)\<close>). Only whether
  it raises is modelled. The scan follows \<open>PyString_Format\<close>: after \<open>%\<close> come an
  optional parenthesised key (parentheses balanced), flags \<open>- + space # 0\<close>, a width
  (digits or \<open>*\<close>), an optional \<open>.\<close> and precision, an optional length modifier
  \<open>h l L\<close> and the conversion character. A key makes the looked-up value the current
  argument; every conversion but \<open>%\<close> consumes the current argument and raises
  "not enough arguments" when there is none left; \<open>*\<close> raises since the argument is no
  integer; of the conversions only \<open>s\<close> and \<open>r\<close> accept the empty string. The flag
  of the states below says whether the current argument is still unconsumed. A string that
  ends inside a specification raises "incomplete format". The padding a width asks for is
  not computed.
\<close>

datatype fmt_state =
    Text bool | Percent bool | InKey nat | Flags bool | Width bool | Dot bool | Prec bool
  | LenMod bool | Failed

definition isdigit :: "char \<Rightarrow> bool" where
  "isdigit c = (CHR ''0'' \<le> c \<and> c \<le> CHR ''9'')"

definition conv :: "bool \<Rightarrow> char \<Rightarrow> fmt_state" where
  "conv a c =
     (if c = CHR ''%'' then Text a
      else if \<not> a then Failed
      else if c = CHR ''s'' \<or> c = CHR ''r'' then Text False
      else Failed)"

definition after_prec :: "bool \<Rightarrow> char \<Rightarrow> fmt_state" where
  "after_prec a c = (if c = CHR ''h'' \<or> c = CHR ''l'' \<or> c = CHR ''L'' then LenMod a else conv a c)"

definition after_width :: "bool \<Rightarrow> char \<Rightarrow> fmt_state" where
  "after_width a c = (if c = CHR ''.'' then Dot a else after_prec a c)"

definition after_flags :: "bool \<Rightarrow> char \<Rightarrow> fmt_state" where
  "after_flags a c =
     (if c = CHR ''*'' then Failed
      else if isdigit c then Width a
      else after_width a c)"

definition in_flags :: "bool \<Rightarrow> char \<Rightarrow> fmt_state" where
  "in_flags a c =
     (if c = CHR ''-'' \<or> c = CHR ''+'' \<or> c = CHR '' '' \<or> c = CHR ''#'' \<or> c = CHR ''0''
      then Flags a else after_flags a c)"

fun fmt_step :: "fmt_state \<Rightarrow> char \<Rightarrow> fmt_state" where
  "fmt_step (Text a) c = (if c = CHR ''%'' then Percent a else Text a)"
| "fmt_step (Percent a) c = (if c = CHR ''('' then InKey 1 else in_flags a c)"
| "fmt_step (InKey n) c =
     (if c = CHR '')'' then (if n = 1 then Flags True else InKey (n - 1))
      else if c = CHR ''('' then InKey (n + 1)
      else InKey n)"
| "fmt_step (Flags a) c = in_flags a c"
| "fmt_step (Width a) c = (if isdigit c then Width a else after_width a c)"
| "fmt_step (Dot a) c =
     (if c = CHR ''*'' then Failed else if isdigit c then Prec a else after_prec a c)"
| "fmt_step (Prec a) c = (if isdigit c then Prec a else after_prec a c)"
| "fmt_step (LenMod a) c = conv a c"
| "fmt_step Failed c = Failed"

fun is_Text :: "fmt_state \<Rightarrow> bool" where
  "is_Text (Text a) = True"
| "is_Text _ = False"

definition format_raises :: "string \<Rightarrow> bool" where
  "format_raises fmt = (\<not> is_Text (foldl fmt_step (Text True) fmt))"

definition env_value_ok :: "string \<Rightarrow> bool" where
  "env_value_ok v = (\<not> format_raises (''%(foo)s'' @ v))"


subsection \<open>recipe\_modules/context/api.py\<close>

text \<open>
  \<open>ContextApi\<close> keeps five stacks; each starts with one element. Dictionaries on the
  stacks are maps. A dictionary passed as an argument is the list of its items in
  iteration order (a dictionary holds each key once); keys are \<open>str\<close>, on which
  \<open>str(k)\<close> is the identity. Path-like entries of a prefix or suffix are strings.
\<close>

record ContextApi =
  self_cwd :: "Path option list"
  self_env_prefixes :: "(string \<rightharpoonup> string list) list"
  self_env_suffixes :: "(string \<rightharpoonup> string list) list"
  self_env :: "(string \<rightharpoonup> string option) list"
  self_infra_step :: "bool list"

definition ContextApi_init :: ContextApi where
  "ContextApi_init =
     \<lparr>self_cwd = [None], self_env_prefixes = [Map.empty], self_env_suffixes = [Map.empty],
      self_env = [Map.empty], self_infra_step = [False]\<rparr>"

record context_args =
  arg_cwd :: "Path option"
  arg_env_prefixes :: "(string \<times> string list) list option"
  arg_env_suffixes :: "(string \<times> string list) list option"
  arg_env :: "(string \<times> string option) list option"
  arg_infra_steps :: "bool option"

datatype stack_id = CWD | INFRA_STEP | ENV_PREFIXES | ENV_SUFFIXES | ENV

definition get_tuple :: "(string \<rightharpoonup> string list) \<Rightarrow> string \<Rightarrow> string list" where
  "get_tuple new k = (case new k of None \<Rightarrow> [] | Some t \<Rightarrow> t)"

fun merge_prefixes ::
  "(string \<times> string list) list \<Rightarrow> (string \<rightharpoonup> string list) \<Rightarrow> (string \<rightharpoonup> string list)" where
  "merge_prefixes [] new = new"
| "merge_prefixes ((k, v) # rest) new =
     (if v = [] then merge_prefixes rest new
      else merge_prefixes rest (new(k \<mapsto> v @ get_tuple new k)))"

fun merge_suffixes ::
  "(string \<times> string list) list \<Rightarrow> (string \<rightharpoonup> string list) \<Rightarrow> (string \<rightharpoonup> string list)" where
  "merge_suffixes [] new = new"
| "merge_suffixes ((k, v) # rest) new =
     (if v = [] then merge_suffixes rest new
      else merge_suffixes rest (new(k \<mapsto> get_tuple new k @ v)))"

definition invalid_env_message :: "string \<Rightarrow> string" where
  "invalid_env_message v =
     ''Invalid %-formatting parameter in envvar, only %(ENVVAR)s allowed: '' @ repr_str v"

fun merge_env ::
  "(string \<times> string option) list \<Rightarrow> (string \<rightharpoonup> string option)
     \<Rightarrow> py_error + (string \<rightharpoonup> string option)" where
  "merge_env [] new = Inr new"
| "merge_env ((k, None) # rest) new = merge_env rest (new(k \<mapsto> None))"
| "merge_env ((k, Some v) # rest) new =
     (if env_value_ok v then merge_env rest (new(k \<mapsto> Some v))
      else Inl (ValueError (invalid_env_message v)))"

definition push_cwd :: "context_args \<Rightarrow> ContextApi \<times> stack_id list \<Rightarrow> ContextApi \<times> stack_id list" where
  "push_cwd args st =
     (case arg_cwd args of
        None \<Rightarrow> st
      | Some cwd \<Rightarrow>
          (fst st\<lparr>self_cwd := self_cwd (fst st) @ [Some cwd]\<rparr>, snd st @ [CWD]))"

definition push_infra_steps :: "context_args \<Rightarrow> ContextApi \<times> stack_id list \<Rightarrow> ContextApi \<times> stack_id list" where
  "push_infra_steps args st =
     (case arg_infra_steps args of
        None \<Rightarrow> st
      | Some b \<Rightarrow>
          (fst st\<lparr>self_infra_step := self_infra_step (fst st) @ [b]\<rparr>, snd st @ [INFRA_STEP]))"

definition push_env_prefixes :: "context_args \<Rightarrow> ContextApi \<times> stack_id list \<Rightarrow> ContextApi \<times> stack_id list" where
  "push_env_prefixes args st =
     (case arg_env_prefixes args of
        None \<Rightarrow> st
      | Some env_prefixes \<Rightarrow>
          if length env_prefixes > 0 then
            (let new = merge_prefixes env_prefixes (last (self_env_prefixes (fst st))) in
             (fst st\<lparr>self_env_prefixes := self_env_prefixes (fst st) @ [new]\<rparr>,
              snd st @ [ENV_PREFIXES]))
          else st)"

definition push_env_suffixes :: "context_args \<Rightarrow> ContextApi \<times> stack_id list \<Rightarrow> ContextApi \<times> stack_id list" where
  "push_env_suffixes args st =
     (case arg_env_suffixes args of
        None \<Rightarrow> st
      | Some env_suffixes \<Rightarrow>
          if length env_suffixes > 0 then
            (let new = merge_suffixes env_suffixes (last (self_env_suffixes (fst st))) in
             (fst st\<lparr>self_env_suffixes := self_env_suffixes (fst st) @ [new]\<rparr>,
              snd st @ [ENV_SUFFIXES]))
          else st)"

definition push_env ::
  "context_args \<Rightarrow> ContextApi \<times> stack_id list \<Rightarrow> py_error option \<times> ContextApi \<times> stack_id list" where
  "push_env args st =
     (case arg_env args of
        None \<Rightarrow> (None, st)
      | Some env \<Rightarrow>
          if length env > 0 then
            (case merge_env env (last (self_env (fst st))) of
               Inl e \<Rightarrow> (Some e, st)
             | Inr new \<Rightarrow>
                 (None, fst st\<lparr>self_env := self_env (fst st) @ [new]\<rparr>, snd st @ [ENV]))
          else (None, st))"

definition context_enter ::
  "context_args \<Rightarrow> ContextApi \<Rightarrow> py_error option \<times> ContextApi \<times> stack_id list" where
  "context_enter args self =
     push_env args
       (push_env_suffixes args
         (push_env_prefixes args
           (push_infra_steps args
             (push_cwd args (self, [])))))"

fun pop_stack :: "stack_id \<Rightarrow> ContextApi \<Rightarrow> ContextApi" where
  "pop_stack CWD self = self\<lparr>self_cwd := butlast (self_cwd self)\<rparr>"
| "pop_stack INFRA_STEP self = self\<lparr>self_infra_step := butlast (self_infra_step self)\<rparr>"
| "pop_stack ENV_PREFIXES self = self\<lparr>self_env_prefixes := butlast (self_env_prefixes self)\<rparr>"
| "pop_stack ENV_SUFFIXES self = self\<lparr>self_env_suffixes := butlast (self_env_suffixes self)\<rparr>"
| "pop_stack ENV self = self\<lparr>self_env := butlast (self_env self)\<rparr>"

definition context_exit :: "stack_id list \<Rightarrow> ContextApi \<Rightarrow> ContextApi" where
  "context_exit to_pop self = fold pop_stack to_pop self"

datatype outcome = Normal | Raised py_error

definition with_context ::
  "context_args \<Rightarrow> (ContextApi \<Rightarrow> outcome \<times> ContextApi) \<Rightarrow> ContextApi \<Rightarrow> outcome \<times> ContextApi" where
  "with_context args body self =
     (case context_enter args self of
        (Some e, self1, to_pop) \<Rightarrow> (Raised e, self1)
      | (None, self1, to_pop) \<Rightarrow>
          (case body self1 of (r, self2) \<Rightarrow> (r, context_exit to_pop self2)))"

definition cwd :: "ContextApi \<Rightarrow> Path option" where "cwd self = last (self_cwd self)"
definition env :: "ContextApi \<Rightarrow> (string \<rightharpoonup> string option)" where "env self = last (self_env self)"
definition env_prefixes :: "ContextApi \<Rightarrow> (string \<rightharpoonup> string list)" where
  "env_prefixes self = last (self_env_prefixes self)"
definition env_suffixes :: "ContextApi \<Rightarrow> (string \<rightharpoonup> string list)" where
  "env_suffixes self = last (self_env_suffixes self)"
definition infra_step :: "ContextApi \<Rightarrow> bool" where "infra_step self = last (self_infra_step self)"

definition no_args :: context_args where
  "no_args = \<lparr>arg_cwd = None, arg_env_prefixes = None, arg_env_suffixes = None,
              arg_env = None, arg_infra_steps = None\<rparr>"


text \<open>Some concrete scopes.\<close>

definition outer_FOO :: ContextApi where
  "outer_FOO = ContextApi_init
     \<lparr>self_env_prefixes := [Map.empty, [''FOO'' \<mapsto> [''/old'']]],
      self_env_suffixes := [Map.empty, [''FOO'' \<mapsto> [''/old'']]]\<rparr>"

definition affix_args :: context_args where
  "affix_args = no_args
     \<lparr>arg_env_prefixes := Some [(''FOO'', [''/pants'', ''/shirt'']), (''BAR'', [])],
      arg_env_suffixes := Some [(''FOO'', [''/pants'', ''/shirt''])]\<rparr>"

definition skip_body :: "ContextApi \<Rightarrow> outcome \<times> ContextApi" where
  "skip_body self = (Normal, self)"

definition cwd_and_bad_env :: context_args where
  "cwd_and_bad_env = no_args
     \<lparr>arg_cwd := Some (Path ''/b''), arg_env := Some [(''BAD'', Some ''%s'')]\<rparr>"

definition only_cwd :: context_args where
  "only_cwd = no_args \<lparr>arg_cwd := Some (Path ''/a'')\<rparr>"

definition env_args :: "string \<Rightarrow> context_args" where
  "env_args v = no_args \<lparr>arg_env := Some [(''BAD'', Some v)]\<rparr>"

subsection \<open>recipe\_engine/internal/step\_runner/subproc.py: resolving argv[0]\<close>

text \<open>
  The platform is a record: whether \<open>sys.platform\<close> is \<open>win32\<close>, \<open>os.path.sep\<close>,
  the functions \<open>os.path.isabs\<close>, \<open>os.path.join\<close>, \<open>os.path.splitext\<close>,
  \<open>os.path.isfile\<close>, and \<open>os.access(path, os.X_OK)\<close>. The lines written to the debug
  log are left out.
\<close>

record os_env =
  win32 :: bool
  os_sep :: char
  os_isabs :: "string \<Rightarrow> bool"
  os_join :: "string \<Rightarrow> string \<Rightarrow> string"
  os_splitext :: "string \<Rightarrow> string \<times> string"
  os_isfile :: "string \<Rightarrow> bool"
  os_access_X_OK :: "string \<Rightarrow> bool"

definition is_executable_file :: "os_env \<Rightarrow> string \<Rightarrow> bool" where
  "is_executable_file os path = (os_isfile os path \<and> os_access_X_OK os path)"

definition PATH_EXTS :: "os_env \<Rightarrow> string list" where
  "PATH_EXTS os = (if win32 os then [''.exe'', ''.bat''] else [''''])"

fun try_exts :: "os_env \<Rightarrow> string \<Rightarrow> string list \<Rightarrow> string option" where
  "try_exts os base_path [] = None"
| "try_exts os base_path (ext # exts) =
     (let candidate = base_path @ ext in
      if is_executable_file os candidate then Some candidate
      else try_exts os base_path exts)"

definition resolve_base_path :: "os_env \<Rightarrow> string \<Rightarrow> string option" where
  "resolve_base_path os base_path =
     (if snd (os_splitext os base_path) \<noteq> [] then
        (if \<not> is_executable_file os base_path then None else Some base_path)
      else try_exts os base_path (PATH_EXTS os))"

text \<open>
  The loop over \<open>paths\<close>: \<open>if candidate:\<close> is false for \<open>None\<close> and for the
  empty string.
\<close>

fun search_paths :: "os_env \<Rightarrow> string \<Rightarrow> string list \<Rightarrow> string option" where
  "search_paths os cmd0 [] = None"
| "search_paths os cmd0 (path # rest) =
     (case resolve_base_path os (os_join os path cmd0) of
        Some candidate \<Rightarrow>
          if candidate \<noteq> [] then Some candidate else search_paths os cmd0 rest
      | None \<Rightarrow> search_paths os cmd0 rest)"

definition resolve_cmd0 :: "os_env \<Rightarrow> string \<Rightarrow> string \<Rightarrow> string list \<Rightarrow> string option" where
  "resolve_cmd0 os cmd0 cwd_dir path_dirs =
     (if os_isabs os cmd0 then resolve_base_path os cmd0
      else if os_sep os \<in> set cmd0 then resolve_base_path os (os_join os cwd_dir cmd0)
      else search_paths os cmd0 path_dirs)"

text \<open>
  The rules as the docstring of \<open>resolve_cmd0\<close> words them: the base paths to look at,
  and for each base path the candidates in the order they are tried.
\<close>

definition candidates :: "os_env \<Rightarrow> string \<Rightarrow> string list" where
  "candidates os base =
     (if snd (os_splitext os base) \<noteq> [] then [base]
      else if win32 os then [base @ ''.exe'', base @ ''.bat'']
      else [base])"

definition base_paths :: "os_env \<Rightarrow> string \<Rightarrow> string \<Rightarrow> string list \<Rightarrow> string list" where
  "base_paths os cmd0 cwd_dir path_dirs =
     (if os_isabs os cmd0 then [cmd0]
      else if os_sep os \<in> set cmd0 then [os_join os cwd_dir cmd0]
      else map (\<lambda>path. os_join os path cmd0) path_dirs)"

text \<open>
  The POSIX platform: \<open>posixpath.isabs\<close>, \<open>posixpath.join\<close> of two components, and
  \<open>posixpath.splitext\<close> (the extension starts at the last dot of the last component,
  leading dots not counted), over a file system given by its executable regular files.
\<close>

primrec rfind_aux :: "char \<Rightarrow> string \<Rightarrow> int \<Rightarrow> int \<Rightarrow> int" where
  "rfind_aux c [] i best = best"
| "rfind_aux c (x # xs) i best = rfind_aux c xs (i + 1) (if x = c then i else best)"

definition rfind :: "string \<Rightarrow> char \<Rightarrow> int" where
  "rfind p c = rfind_aux c p 0 (- 1)"

function non_dot_between :: "string \<Rightarrow> int \<Rightarrow> int \<Rightarrow> bool" where
  "non_dot_between p filenameIndex dotIndex =
     (if filenameIndex < dotIndex then
        (if p ! nat filenameIndex \<noteq> CHR ''.'' then True
         else non_dot_between p (filenameIndex + 1) dotIndex)
      else False)"
  by pat_completeness auto
termination
  by (relation "measure (\<lambda>(p, i, j). nat (j - i))") auto

definition posix_splitext :: "string \<Rightarrow> string \<times> string" where
  "posix_splitext p =
     (let sepIndex = rfind p CHR ''/''; dotIndex = rfind p CHR ''.'' in
      if dotIndex > sepIndex \<and> non_dot_between p (sepIndex + 1) dotIndex
      then (take (nat dotIndex) p, drop (nat dotIndex) p)
      else (p, []))"

definition posix_isabs :: "string \<Rightarrow> bool" where
  "posix_isabs s = startswith s ''/''"

definition posix_join :: "string \<Rightarrow> string \<Rightarrow> string" where
  "posix_join a b =
     (if startswith b ''/'' then b
      else if a = [] \<or> endswith a ''/'' then a @ b
      else a @ ''/'' @ b)"

definition posix :: "string list \<Rightarrow> os_env" where
  "posix executables =
     \<lparr>win32 = False, os_sep = CHR ''/'', os_isabs = posix_isabs, os_join = posix_join,
      os_splitext = posix_splitext, os_isfile = (\<lambda>p. p \<in> set executables),
      os_access_X_OK = (\<lambda>p. p \<in> set executables)\<rparr>"

definition demo_os :: os_env where
  "demo_os = posix [''/usr/bin/python'', ''/bin/sh'', ''/home/build/tools/run.sh'']"

subsection \<open>recipe\_engine/internal/step\_runner/subproc.py: waiting for the subprocess\<close>

text \<open>
  Modelled from the spec: \<open>ExecutionResult\<close> (imported from \<open>step_data\<close>, which is not
  among the sources) has the fields retcode (int or none), had\_timeout and was\_cancelled;
  a fresh one has no retcode and both flags false.
\<close>

record ExecutionResult =
  retcode :: "int option"
  had_timeout :: bool
  was_cancelled :: bool

definition ExecutionResult_init :: ExecutionResult where
  "ExecutionResult_init = \<lparr>retcode = None, had_timeout = False, was_cancelled = False\<rparr>"

text \<open>
  The subprocess. What the process and the scheduler will do is a list of events, one for
  each blocking wait to come: the process exits with a return code, the wait's timeout
  elapses with the process still running, or the scheduler raises GreenletExit in the
  waiting greenlet. \<open>calls\<close> records the signals sent, in order.
\<close>

datatype signal = SIGTERM | SIGKILL | CTRL_BREAK_EVENT

datatype sys_call = Killpg int signal | Send_signal signal | Terminate

datatype wait_event = Exits int | Elapses | Cancelled

record Popen =
  returncode :: "int option"
  events :: "wait_event list"
  calls :: "sys_call list"

datatype 'a result = Returns 'a | Raises py_error | Blocks

datatype wait_outcome = Exited int | TimedOut | Killed | Forever

text \<open>
  One blocking wait, timed or not: an untimed wait outlasts any number of elapsed
  periods, and with no event left it never returns.
\<close>

fun await :: "bool \<Rightarrow> wait_event list \<Rightarrow> wait_outcome \<times> wait_event list" where
  "await timed [] = (if timed then TimedOut else Forever, [])"
| "await timed (Exits rc # es) = (Exited rc, es)"
| "await timed (Cancelled # es) = (Killed, es)"
| "await timed (Elapses # es) = (if timed then (TimedOut, es) else await False es)"

text \<open>
  \<open>proc.wait(timeout)\<close> returns at once when the return code is known; \<open>proc.poll()\<close>
  reads it. A call either returns, raises, or blocks for ever.
\<close>

definition proc_wait :: "bool \<Rightarrow> Popen \<Rightarrow> unit result \<times> Popen" where
  "proc_wait timed proc =
     (if returncode proc \<noteq> None then (Returns (), proc)
      else
        (case await timed (events proc) of
           (Exited rc, es) \<Rightarrow> (Returns (), proc\<lparr>returncode := Some rc, events := es\<rparr>)
         | (TimedOut, es) \<Rightarrow> (Returns (), proc\<lparr>events := es\<rparr>)
         | (Killed, es) \<Rightarrow> (Raises GreenletExit, proc\<lparr>events := es\<rparr>)
         | (Forever, es) \<Rightarrow> (Blocks, proc\<lparr>events := es\<rparr>)))"

definition poll :: "Popen \<Rightarrow> int option" where
  "poll proc = returncode proc"

text \<open>
  \<open>os.killpg(gid, sig)\<close> inside \<open>try/except OSError: pass\<close>: a failure to deliver is
  swallowed; a \<open>gid\<close> of \<open>None\<close> (the process group could not be read) is a
  TypeError, which is not.
\<close>

definition killpg :: "int option \<Rightarrow> signal \<Rightarrow> Popen \<Rightarrow> unit result \<times> Popen" where
  "killpg gid sig proc =
     (case gid of
        None \<Rightarrow> (Raises TypeError, proc)
      | Some g \<Rightarrow> (Returns (), proc\<lparr>calls := calls proc @ [Killpg g sig]\<rparr>))"

text \<open>
  \<open>_kill\<close>, in its POSIX and its Windows definition (\<open>_MSWINDOWS\<close> chooses); the
  names \<open>kill\<close> and \<open>wait_proc\<close> stand for \<open>_kill\<close> and \<open>_wait_proc\<close>.
\<close>

definition kill_posix :: "Popen \<Rightarrow> int option \<Rightarrow> int option result \<times> Popen" where
  "kill_posix proc gid =
     (case killpg gid SIGTERM proc of
        (Raises e, p1) \<Rightarrow> (Raises e, p1)
      | (Blocks, p1) \<Rightarrow> (Blocks, p1)
      | (Returns _, p1) \<Rightarrow>
          (case proc_wait True p1 of
             (Raises e, p2) \<Rightarrow> (Raises e, p2)
           | (Blocks, p2) \<Rightarrow> (Blocks, p2)
           | (Returns _, p2) \<Rightarrow>
               (case killpg gid SIGKILL p2 of
                  (Raises e, p3) \<Rightarrow> (Raises e, p3)
                | (Blocks, p3) \<Rightarrow> (Blocks, p3)
                | (Returns _, p3) \<Rightarrow>
                    (case proc_wait False p3 of
                       (Raises e, p4) \<Rightarrow> (Raises e, p4)
                     | (Blocks, p4) \<Rightarrow> (Blocks, p4)
                     | (Returns _, p4) \<Rightarrow> (Returns (returncode p4), p4)))))"

definition kill_windows :: "Popen \<Rightarrow> int option \<Rightarrow> int option result \<times> Popen" where
  "kill_windows proc gid =
     (let p1 = proc\<lparr>calls := calls proc @ [Send_signal CTRL_BREAK_EVENT]\<rparr> in
      case proc_wait True p1 of
        (Raises e, p2) \<Rightarrow> (Raises e, p2)
      | (Blocks, p2) \<Rightarrow> (Blocks, p2)
      | (Returns _, p2) \<Rightarrow>
          if returncode p2 \<noteq> None then (Returns (returncode p2), p2)
          else
            (let p3 = p2\<lparr>calls := calls p2 @ [Terminate]\<rparr> in
             case proc_wait False p3 of
               (Raises e, p4) \<Rightarrow> (Raises e, p4)
             | (Blocks, p4) \<Rightarrow> (Blocks, p4)
             | (Returns _, p4) \<Rightarrow> (Returns (returncode p4), p4)))"

definition kill :: "bool \<Rightarrow> Popen \<Rightarrow> int option \<Rightarrow> int option result \<times> Popen" where
  "kill mswindows proc gid = (if mswindows then kill_windows proc gid else kill_posix proc gid)"

text \<open>
  \<open>_wait_proc\<close>. The \<open>except gevent.GreenletExit\<close> clause is \<open>on_GreenletExit\<close>; it
  guards the wait and the kill after a timeout, and any other exception passes through.
\<close>

definition on_GreenletExit ::
  "bool \<Rightarrow> ExecutionResult \<Rightarrow> Popen \<Rightarrow> int option \<Rightarrow> ExecutionResult result \<times> Popen" where
  "on_GreenletExit mswindows ret proc gid =
     (case kill mswindows proc gid of
        (Raises e, p) \<Rightarrow> (Raises e, p)
      | (Blocks, p) \<Rightarrow> (Blocks, p)
      | (Returns k, p) \<Rightarrow> (Returns (ret\<lparr>retcode := k, was_cancelled := True\<rparr>), p))"

definition wait_proc ::
  "bool \<Rightarrow> Popen \<Rightarrow> int option \<Rightarrow> real option \<Rightarrow> ExecutionResult result \<times> Popen" where
  "wait_proc mswindows proc gid timeout =
     (let ret = ExecutionResult_init in
      case proc_wait (timeout \<noteq> None) proc of
        (Raises e, p1) \<Rightarrow>
          if e = GreenletExit then on_GreenletExit mswindows ret p1 gid else (Raises e, p1)
      | (Blocks, p1) \<Rightarrow> (Blocks, p1)
      | (Returns _, p1) \<Rightarrow>
          (let ret = ret\<lparr>retcode := poll p1\<rparr> in
           if retcode ret = None then
             (case kill mswindows p1 gid of
                (Raises e, p2) \<Rightarrow>
                  if e = GreenletExit then on_GreenletExit mswindows ret p2 gid
                  else (Raises e, p2)
              | (Blocks, p2) \<Rightarrow> (Blocks, p2)
              | (Returns k, p2) \<Rightarrow> (Returns (ret\<lparr>retcode := k, had_timeout := True\<rparr>), p2))
           else (Returns ret, p1)))"

text \<open>A process just spawned, with its future.\<close>

definition spawned :: "wait_event list \<Rightarrow> Popen" where
  "spawned es = \<lparr>returncode = None, events = es, calls = []\<rparr>"


subsection \<open>recipe\_engine/internal/commands/test: run\_train.py and report.py\<close>

text \<open>
  What the driver writes to standard output: a \<open>print\<close>ed line, a
  \<open>sys.stdout.write\<close>, and the two lines that format numbers (the coverage percent,
  the number of tests; the elapsed time is left out).
\<close>

datatype out =
    Line string
  | Write string
  | Insufficient_coverage real
  | Ran_tests nat

text \<open>
  A recipe of the main repository: its name, the names of the test cases \<open>gen_tests()\<close>
  yields in order, the exception the generator raises after them (it is user code), the
  expectation file of a test name (\<open>test_case.expect_file\<close>), and the expectation files
  on disk.
\<close>

record recipe =
  recipe_name :: string
  gen_tests :: "string list"
  gen_tests_raises :: "py_error option"
  expect_file_of :: "string \<Rightarrow> string"
  expectation_dir :: string
  expectation_paths :: "string set"

text \<open>
  The effects of \<open>_push_tests\<close>: the description queue, standard output, the
  directories made and the files removed in train mode.
\<close>

record push_state =
  description_queue :: "(string \<times> string) list"
  stdout :: "out list"
  made_dirs :: "string list"
  removed_files :: "string set"

text \<open>
  \<open>_extract_filter_matchers\<close>. \<open>glob_match pattern name\<close> stands for
  \<open>re.compile(fnmatch.translate(pattern)).match(name)\<close>; the recipe filter uses the
  part of each pattern before its first dot.
\<close>

definition extract_filter_matchers ::
  "(string \<Rightarrow> string \<Rightarrow> bool) \<Rightarrow> string list \<Rightarrow> (string \<Rightarrow> bool) \<times> (string \<Rightarrow> bool)" where
  "extract_filter_matchers glob_match test_filters =
     (if test_filters = [] then ((\<lambda>_. True), (\<lambda>_. True))
      else
        ((\<lambda>recipe_name. \<exists>pattern \<in> set test_filters.
             glob_match (takeWhile (\<lambda>c. c \<noteq> CHR ''.'') pattern) recipe_name),
         (\<lambda>full_name. \<exists>pattern \<in> set test_filters. glob_match pattern full_name)))"

definition duplicate_name_message :: "string \<Rightarrow> string" where
  "duplicate_name_message name = ''Emitted test with duplicate name '' @ repr_str name"

definition same_file_message :: "string \<Rightarrow> string \<Rightarrow> string \<Rightarrow> string" where
  "same_file_message name og_name expect_file =
     ''Emitted test '' @ repr_str name @ '' which maps to the same JSON file as ''
       @ repr_str og_name @ '': '' @ repr_str expect_file"

text \<open>
  The loop over \<open>recipe.gen_tests()\<close> inside the \<open>try\<close>.
\<close>

fun push_cases ::
  "recipe \<Rightarrow> (string \<Rightarrow> bool) \<Rightarrow> string list \<Rightarrow> (string \<rightharpoonup> string) \<Rightarrow> string set
     \<Rightarrow> (string \<times> string) list \<Rightarrow> (py_error + string set) \<times> (string \<times> string) list" where
  "push_cases r test_filter [] test_filenames used_expectations q = (Inr used_expectations, q)"
| "push_cases r test_filter (name # rest) test_filenames used_expectations q =
     (let expect_file = expect_file_of r name;
          used_expectations = insert expect_file used_expectations
      in case test_filenames expect_file of
           Some og_name \<Rightarrow>
             if og_name = name then (Inl (ValueError (duplicate_name_message name)), q)
             else (Inl (ValueError (same_file_message name og_name expect_file)), q)
         | None \<Rightarrow>
             (let test_filenames = test_filenames(expect_file \<mapsto> name) in
              if \<not> test_filter (recipe_name r @ ''.'' @ name)
              then push_cases r test_filter rest test_filenames used_expectations q
              else push_cases r test_filter rest test_filenames used_expectations
                     (q @ [(recipe_name r, name)])))"

definition user_code_error :: "recipe \<Rightarrow> out list" where
  "user_code_error r =
     [Line ''USER CODE ERROR:'',
      Line (''Crashed while running GenTests from recipe '' @ repr_str (recipe_name r))]"

text \<open>
  One round of the loop over the recipes that pass the filter: the \<open>except\<close> clause
  prints and re-raises.
\<close>

definition push_recipe ::
  "(string \<Rightarrow> bool) \<Rightarrow> bool \<Rightarrow> recipe \<Rightarrow> push_state \<Rightarrow> (py_error + string set) \<times> push_state" where
  "push_recipe test_filter is_train r st =
     (let st = (if is_train then st\<lparr>made_dirs := made_dirs st @ [expectation_dir r]\<rparr> else st) in
      case push_cases r test_filter (gen_tests r) Map.empty {} (description_queue st) of
        (Inl e, q) \<Rightarrow>
          (Inl e, st\<lparr>description_queue := q, stdout := stdout st @ user_code_error r\<rparr>)
      | (Inr used_expectations, q) \<Rightarrow>
          (case gen_tests_raises r of
             Some e \<Rightarrow>
               (Inl e, st\<lparr>description_queue := q, stdout := stdout st @ user_code_error r\<rparr>)
           | None \<Rightarrow>
               (Inr (expectation_paths r - used_expectations), st\<lparr>description_queue := q\<rparr>)))"

fun push_recipes ::
  "(string \<Rightarrow> bool) \<Rightarrow> (string \<Rightarrow> bool) \<Rightarrow> bool \<Rightarrow> recipe list \<Rightarrow> string set \<Rightarrow> push_state
     \<Rightarrow> (py_error + string set) \<times> push_state" where
  "push_recipes recipe_filter test_filter is_train [] unused_expectation_files st =
     (Inr unused_expectation_files, st)"
| "push_recipes recipe_filter test_filter is_train (r # rest) unused_expectation_files st =
     (if \<not> recipe_filter (recipe_name r)
      then push_recipes recipe_filter test_filter is_train rest unused_expectation_files st
      else
        (case push_recipe test_filter is_train r st of
           (Inl e, st1) \<Rightarrow> (Inl e, st1)
         | (Inr unused, st1) \<Rightarrow>
             push_recipes recipe_filter test_filter is_train rest
               (unused_expectation_files \<union> unused) st1))"

definition push_tests ::
  "(string \<Rightarrow> string \<Rightarrow> bool) \<Rightarrow> string list \<Rightarrow> bool \<Rightarrow> recipe list \<Rightarrow> push_state
     \<Rightarrow> (py_error + string set) \<times> push_state" where
  "push_tests glob_match test_filters is_train recipes st =
     (case extract_filter_matchers glob_match test_filters of
        (recipe_filter, test_filter) \<Rightarrow>
          (case push_recipes recipe_filter test_filter is_train recipes {} st of
             (Inl e, st1) \<Rightarrow> (Inl e, st1)
           | (Inr unused_expectation_files, st1) \<Rightarrow>
               if \<not> is_train then (Inr unused_expectation_files, st1)
               else (Inr {}, st1\<lparr>removed_files := removed_files st1 \<union> unused_expectation_files\<rparr>)))"

text \<open>
  Some recipes, a worker pool that reports every queued test as a success, and a
  repository without recipes.
\<close>

definition expect_json :: "string \<Rightarrow> string \<Rightarrow> string" where
  "expect_json dir name = dir @ ''/'' @ name @ ''.json''"

definition recipe_A :: recipe where
  "recipe_A = \<lparr>recipe_name = ''A'', gen_tests = [''basic'', ''other'', ''basic'', ''last''],
     gen_tests_raises = None, expect_file_of = expect_json ''A.expected'',
     expectation_dir = ''A.expected'', expectation_paths = {}\<rparr>"

definition recipe_B :: recipe where
  "recipe_B = \<lparr>recipe_name = ''B'', gen_tests = [''ok''],
     gen_tests_raises = None, expect_file_of = expect_json ''B.expected'',
     expectation_dir = ''B.expected'', expectation_paths = {}\<rparr>"

definition push_state_init :: push_state where
  "push_state_init = \<lparr>description_queue = [], stdout = [], made_dirs = [], removed_files = {}\<rparr>"

text \<open>
  Modelled from the spec: the outcome message (the protocol definitions are not among the
  sources). A test outcome holds per-test diagnostics (internal\_error, bad\_test,
  crash\_mismatch, check, diff, removed, written), uncovered\_modules,
  unused\_expectation\_files and coverage\_percent; a field is listed when it is not empty.
\<close>

record test_result =
  tr_internal_error :: "string list"
  tr_bad_test :: "string list"
  tr_crash_mismatch :: "string list"
  tr_check :: "string list list"
  tr_diff :: "string list option"
  tr_removed :: bool
  tr_written :: bool

record Outcome =
  oc_test_results :: "(string \<times> test_result) list"
  oc_internal_error :: "string list"
  oc_uncovered_modules :: "string list"
  oc_unused_expectation_files :: "string list"
  oc_coverage_percent :: real

definition Outcome_init :: Outcome where
  "Outcome_init = \<lparr>oc_test_results = [], oc_internal_error = [], oc_uncovered_modules = [],
     oc_unused_expectation_files = [], oc_coverage_percent = 0\<rparr>"

definition MergeFrom :: "Outcome \<Rightarrow> Outcome \<Rightarrow> Outcome" where
  "MergeFrom self other =
     \<lparr>oc_test_results = fold (\<lambda>(k, v) m. AList.update k v m) (oc_test_results other) (oc_test_results self),
      oc_internal_error = oc_internal_error self @ oc_internal_error other,
      oc_uncovered_modules = oc_uncovered_modules self @ oc_uncovered_modules other,
      oc_unused_expectation_files = oc_unused_expectation_files self @ oc_unused_expectation_files other,
      oc_coverage_percent =
        (if oc_coverage_percent other \<noteq> 0 then oc_coverage_percent other else oc_coverage_percent self)\<rparr>"

text \<open>
  Modelled from the spec: a coverage fragment is a per-worker accumulator of line-hit sets
  keyed by source file, merged by union (\<open>CoverageData.update\<close> of the coverage
  library).
\<close>

type_synonym cov_data = "(string \<times> nat set) list"

definition cov_update :: "cov_data \<Rightarrow> cov_data \<Rightarrow> cov_data" where
  "cov_update self other_data =
     fold (\<lambda>(filename, file_lines) d.
             AList.update filename
               (case map_of d filename of None \<Rightarrow> file_lines | Some lines1 \<Rightarrow> lines1 \<union> file_lines) d)
       other_data self"

definition measured_files :: "cov_data \<Rightarrow> string list" where
  "measured_files d = map fst d"

text \<open>
  report.py: the reporter; \<open>rp_long_err_buf\<close> holds the lines printed into the error
  buffer.
\<close>

record Reporter =
  rp_use_emoji :: bool
  rp_is_train :: bool
  rp_symbol_count :: nat
  rp_long_err_buf :: "string list"
  rp_symbol_max :: nat
  rp_verbose :: bool

definition Reporter_init :: "nat \<Rightarrow> bool \<Rightarrow> bool \<Rightarrow> bool \<Rightarrow> Reporter" where
  "Reporter_init columns verbose use_emoji is_train =
     \<lparr>rp_use_emoji = use_emoji, rp_is_train = is_train, rp_symbol_count = 0,
      rp_long_err_buf = [],
      rp_symbol_max = max 1 ((if columns = 0 then 80 else columns) div (if use_emoji then 2 else 1)),
      rp_verbose = verbose\<rparr>"

datatype field =
  F_internal_error | F_bad_test | F_crash_mismatch | F_check | F_diff | F_removed | F_written

text \<open>(success, verbose_msg, emoji, text)\<close>

fun FIELD_TO_DISPLAY :: "field option \<Rightarrow> bool \<times> string \<times> string \<times> string" where
  "FIELD_TO_DISPLAY (Some F_internal_error) =
     (False, ''internal testrunner error'', [CHR 0xF0, CHR 0x9F, CHR 0x86, CHR 0x98], ''!'')"
| "FIELD_TO_DISPLAY (Some F_bad_test) =
     (False, ''test specification was bad/invalid'', [CHR 0xF0, CHR 0x9F, CHR 0x9B, CHR 0x91], ''S'')"
| "FIELD_TO_DISPLAY (Some F_crash_mismatch) =
     (False, ''recipe crashed in an unexpected way'', [CHR 0xF0, CHR 0x9F, CHR 0x94, CHR 0xA5], ''E'')"
| "FIELD_TO_DISPLAY (Some F_check) =
     (False, ''failed post_process check(s)'', [CHR 0xE2, CHR 0x9D, CHR 0x8C], ''X'')"
| "FIELD_TO_DISPLAY (Some F_diff) =
     (False, ''expectation file has diff'', [CHR 0xE2, CHR 0x9A, CHR 0xA1], ''D'')"
| "FIELD_TO_DISPLAY (Some F_removed) =
     (True, ''removed expectation file'', [CHR 0xF0, CHR 0x9F, CHR 0x8C, CHR 0x9F], ''R'')"
| "FIELD_TO_DISPLAY (Some F_written) =
     (True, ''updated expectation file'', [CHR 0xF0, CHR 0x9F, CHR 0x92, CHR 0xBE], ''D'')"
| "FIELD_TO_DISPLAY None = (True, [], [CHR 0xE2, CHR 0x9C, CHR 0x85], ''.'')"

definition display_order :: "field option list" where
  "display_order =
     [Some F_internal_error, Some F_bad_test, Some F_crash_mismatch, Some F_check, Some F_diff,
      Some F_removed, Some F_written, None]"

fun listed :: "test_result \<Rightarrow> field \<Rightarrow> bool" where
  "listed t F_internal_error = (tr_internal_error t \<noteq> [])"
| "listed t F_bad_test = (tr_bad_test t \<noteq> [])"
| "listed t F_crash_mismatch = (tr_crash_mismatch t \<noteq> [])"
| "listed t F_check = (tr_check t \<noteq> [])"
| "listed t F_diff = (tr_diff t \<noteq> None)"
| "listed t F_removed = tr_removed t"
| "listed t F_written = tr_written t"

fun first_populated :: "test_result \<Rightarrow> field option list \<Rightarrow> field option" where
  "first_populated t [] = None"
| "first_populated t (None # rest) = None"
| "first_populated t (Some f # rest) = (if listed t f then Some f else first_populated t rest)"

definition print_summary_info :: "bool \<Rightarrow> bool \<Rightarrow> string \<Rightarrow> test_result \<Rightarrow> out list" where
  "print_summary_info verbose use_emoji test_name t =
     (case FIELD_TO_DISPLAY (first_populated t display_order) of
        (success, verbose_msg, emj, txt) \<Rightarrow>
          if verbose then
            [Line (test_name @ '' ... '' @ (if success then ''ok'' else ''FAIL'')
                   @ (if verbose_msg = [] then [] else '' ('' @ verbose_msg @ '')''))]
          else [Write (if use_emoji then emj else txt)])"

definition header :: "string \<Rightarrow> string \<Rightarrow> string list" where
  "header verbose_msg test_name =
     [replicate 70 CHR ''='', ''FAIL ('' @ verbose_msg @ '') - '' @ test_name, replicate 70 CHR ''-'']"

definition detail_lines :: "field \<Rightarrow> string \<Rightarrow> string list \<Rightarrow> string list" where
  "detail_lines f test_name lines =
     (if lines \<noteq> [] then
        header (fst (snd (FIELD_TO_DISPLAY (Some f)))) test_name @ lines @ [[]]
      else [])"

definition print_detail_info :: "string \<Rightarrow> test_result \<Rightarrow> string list" where
  "print_detail_info test_name t =
     detail_lines F_internal_error test_name (tr_internal_error t)
     @ detail_lines F_bad_test test_name (tr_bad_test t)
     @ detail_lines F_crash_mismatch test_name (tr_crash_mismatch t)
     @ (if tr_check t \<noteq> [] then
          header (fst (snd (FIELD_TO_DISPLAY (Some F_check)))) test_name
          @ concat (map (\<lambda>group. group @ [[]]) (tr_check t))
        else [])
     @ (case tr_diff t of
          None \<Rightarrow> []
        | Some lines \<Rightarrow>
            header (fst (snd (FIELD_TO_DISPLAY (Some F_diff)))) test_name @ lines @ [[]])"

definition short_report ::
  "Reporter \<Rightarrow> Outcome \<Rightarrow> (py_error + unit) \<times> out list \<times> Reporter" where
  "short_report self outcome_msg =
     (if oc_internal_error outcome_msg \<noteq> [] then
        (Inl (SystemExit 1),
         [Line ''ABORT ABORT ABORT'', Line ''Global failure(s):'']
         @ map (\<lambda>failure. Line (''   '' @ failure)) (oc_internal_error outcome_msg),
         self)
      else
        (let printed = concat (map (\<lambda>(test_name, t).
                          print_summary_info (rp_verbose self) (rp_use_emoji self) test_name t)
                        (oc_test_results outcome_msg));
             buf = rp_long_err_buf self
                   @ concat (map (\<lambda>(test_name, t). print_detail_info test_name t)
                        (oc_test_results outcome_msg));
             count = rp_symbol_count self + 1
         in if \<not> rp_verbose self \<and> count mod rp_symbol_max self = 0
            then (Inr (), printed @ [Line []],
                  self\<lparr>rp_long_err_buf := buf, rp_symbol_count := 0\<rparr>)
            else (Inr (), printed, self\<lparr>rp_long_err_buf := buf, rp_symbol_count := count\<rparr>)))"

text \<open>\<open>int(x)\<close> of a float: truncation towards zero.\<close>

definition py_int :: "real \<Rightarrow> int" where
  "py_int x = (if x \<ge> 0 then \<lfloor>x\<rfloor> else \<lceil>x\<rceil>)"

text \<open>
  \<open>final_report\<close>. \<open>cov_report data\<close> stands for
  \<open>cov.report(file=covf, show_missing=True, skip_covered=True)\<close>: the text written to
  \<open>covf\<close>, and the percent returned or the CoverageException printed.
\<close>

definition final_report ::
  "(cov_data \<Rightarrow> string \<times> (string + real)) \<Rightarrow> Reporter \<Rightarrow> cov_data option \<Rightarrow> Outcome
     \<Rightarrow> (py_error + unit) \<times> out list \<times> Outcome" where
  "final_report cov_report self cov outcome_msg =
     (let fail = (rp_long_err_buf self \<noteq> []);
          printed = [Line []] @ map Line (rp_long_err_buf self);
          (fail, printed, outcome_msg) =
            (case cov of
               None \<Rightarrow> (fail, printed, outcome_msg)
             | Some data \<Rightarrow>
                 if measured_files data = [] then (fail, printed, outcome_msg)
                 else
                   (let (covf, result) = cov_report data;
                        (printed, outcome_msg) =
                          (case result of
                             Inl ex \<Rightarrow> (printed @ [Line ex], outcome_msg)
                           | Inr percent \<Rightarrow>
                               (printed, outcome_msg\<lparr>oc_coverage_percent := percent\<rparr>))
                    in if py_int (oc_coverage_percent outcome_msg) \<noteq> 100
                       then (True,
                             printed @ [Line covf,
                                        Insufficient_coverage (oc_coverage_percent outcome_msg),
                                        Line []],
                             outcome_msg)
                       else (fail, printed, outcome_msg)));
          printed = printed @ [Line (replicate 70 CHR ''-''),
                               Ran_tests (length (oc_test_results outcome_msg)), Line []];
          (fail, printed) =
            (if oc_uncovered_modules outcome_msg \<noteq> [] then
               (True,
                printed @ [Line ''------'',
                           Line ''ERROR: The following modules lack any form of test coverage:'']
                  @ map (\<lambda>modname. Line (''   '' @ modname)) (oc_uncovered_modules outcome_msg)
                  @ [Line [],
                     Line (''Please add test recipes for them (e.g. recipes in the module''
                           @ [CHR 0x27] @ ''s''),
                     Line (''\"tests\" subdirectory).''),
                     Line []])
             else (fail, printed));
          (fail, printed) =
            (if oc_unused_expectation_files outcome_msg \<noteq> [] then
               (True,
                printed @ [Line ''------'',
                           Line ''ERROR: The following expectation files have no associated test case:'']
                  @ map (\<lambda>expect_file. Line (''   '' @ expect_file))
                      (oc_unused_expectation_files outcome_msg)
                  @ [Line []])
             else (fail, printed))
      in if fail then
           (Inl (SystemExit 1),
            printed @ [Line ''------'', Line ''FAILED'', Line []]
              @ (if \<not> rp_is_train self then
                   [Line ''NOTE: You may need to re-train the expectation files by running:'',
                    Line [],
                    Line ''  ./recipes.py test train'',
                    Line [],
                    Line ''This will update all the .json files to have content which matches'',
                    Line ''the current recipe logic. Review them for correctness and include'',
                    Line ''them with your CL.'']
                 else []),
            outcome_msg)
         else (Inr (), printed @ [Line ''OK''], outcome_msg))"

record module_info =
  mod_name :: string
  uses_sloppy_coverage :: bool
  has_recipes :: bool

text \<open>
  What \<open>_run\<close> takes from outside the sources: the glob matcher, the worker pool (given
  whether coverage is collected and the queued descriptions, the outcomes the workers send
  and the coverage shard of each worker), the coverage report, the terminal width and the
  logging level.
\<close>

record test_env =
  glob_match :: "string \<Rightarrow> string \<Rightarrow> bool"
  workers :: "bool \<Rightarrow> (string \<times> string) list \<Rightarrow> Outcome list \<times> cov_data list"
  cov_report :: "cov_data \<Rightarrow> string \<times> (string + real)"
  terminal_columns :: nat
  verbose_logging :: bool

definition uncovered_modules_of :: "module_info list \<Rightarrow> string list" where
  "uncovered_modules_of modules =
     sorted_list_of_set
       (set (map mod_name modules)
        - set (map mod_name
                 (filter (\<lambda>m. uses_sloppy_coverage m \<or> has_recipes m) modules)))"

definition collect_coverage_data :: "cov_data list \<Rightarrow> cov_data" where
  "collect_coverage_data shards = fold (\<lambda>thread_data data. cov_update data thread_data) shards []"

fun report_outcomes ::
  "Reporter \<Rightarrow> Outcome \<Rightarrow> Outcome list \<Rightarrow> (py_error + unit) \<times> out list \<times> Reporter \<times> Outcome" where
  "report_outcomes reporter test_result [] = (Inr (), [], reporter, test_result)"
| "report_outcomes reporter test_result (rslt # rest) =
     (let test_result = MergeFrom test_result rslt in
      case short_report reporter rslt of
        (Inl e, printed, reporter) \<Rightarrow> (Inl e, printed, reporter, test_result)
      | (Inr _, printed, reporter) \<Rightarrow>
          (case report_outcomes reporter test_result rest of
             (r, printed2, reporter, test_result) \<Rightarrow>
               (r, printed @ printed2, reporter, test_result)))"

text \<open>
  \<open>_run\<close>. An exception of \<open>_push_tests\<close> leaves through the \<open>finally\<close> clause,
  which kills the workers; \<open>main\<close> catches KeyboardInterrupt and SystemExit only.
\<close>

definition run ::
  "test_env \<Rightarrow> Outcome \<Rightarrow> recipe list \<Rightarrow> module_info list \<Rightarrow> bool \<Rightarrow> string list \<Rightarrow> bool
     \<Rightarrow> (py_error + unit) \<times> out list \<times> Outcome" where
  "run tenv test_result recipes modules use_emoji test_filters is_train =
     (let test_result = test_result\<lparr>oc_uncovered_modules :=
            oc_uncovered_modules test_result @ uncovered_modules_of modules\<rparr>;
          reporter = Reporter_init (terminal_columns tenv) (verbose_logging tenv) use_emoji is_train
      in case push_tests (glob_match tenv) test_filters is_train recipes
                \<lparr>description_queue = [], stdout = [], made_dirs = [], removed_files = {}\<rparr> of
           (Inl e, st) \<Rightarrow> (Inl e, stdout st, test_result)
         | (Inr unused, st) \<Rightarrow>
             (let test_result = test_result\<lparr>oc_unused_expectation_files :=
                    oc_unused_expectation_files test_result @ sorted_list_of_set unused\<rparr>;
                  (outcomes, shards) = workers tenv (test_filters = []) (description_queue st)
              in case report_outcomes reporter test_result outcomes of
                   (Inl e, printed, reporter, test_result) \<Rightarrow>
                     (Inl e, stdout st @ printed, test_result)
                 | (Inr _, printed, reporter, test_result) \<Rightarrow>
                     (let cov = (if test_filters = [] then Some (collect_coverage_data shards)
                                 else None)
                      in case final_report (cov_report tenv) reporter cov test_result of
                           (r, printed2, test_result) \<Rightarrow>
                             (r, stdout st @ printed @ printed2, test_result))))"

definition lines_of :: "cov_data \<Rightarrow> string \<Rightarrow> nat set" where
  "lines_of d filename = \<Union> {file_lines. (filename, file_lines) \<in> set d}"

definition demo_env :: test_env where
  "demo_env = \<lparr>glob_match = (\<lambda>pattern name. pattern = name),
     workers = (\<lambda>collect_coverage q.
        (map (\<lambda>(r, t). Outcome_init\<lparr>oc_test_results :=
            [(r @ ''.'' @ t, \<lparr>tr_internal_error = [], tr_bad_test = [], tr_crash_mismatch = [],
               tr_check = [], tr_diff = None, tr_removed = False, tr_written = False\<rparr>)]\<rparr>) q,
         if collect_coverage then [[(''recipes/B.py'', {1, 2})], [(''recipes/B.py'', {2, 3})]] else [])),
     cov_report = (\<lambda>data. (''Name Stmts Miss Cover Missing'',
         Inr (if 3 \<in> lines_of data ''recipes/B.py'' then 100 else 50))),
     terminal_columns = 80, verbose_logging = False\<rparr>"

definition queued :: "recipe \<Rightarrow> (string \<Rightarrow> bool) \<Rightarrow> string list \<Rightarrow> (string \<times> string) list" where
  "queued r test_filter names =
     map (\<lambda>name. (recipe_name r, name))
       (filter (\<lambda>name. test_filter (recipe_name r @ ''.'' @ name)) names)"

definition duplicate_error :: "recipe \<Rightarrow> string \<Rightarrow> string \<Rightarrow> py_error" where
  "duplicate_error r og_name name =
     ValueError (if og_name = name then duplicate_name_message name
                 else same_file_message name og_name (expect_file_of r name))"

definition recipe_C :: recipe where
  "recipe_C = \<lparr>recipe_name = ''C'', gen_tests = [''one'', ''two'', ''three''],
     gen_tests_raises = None, expect_file_of = (\<lambda>name. if name = ''two'' then ''C.expected/one.json''
        else expect_json ''C.expected'' name),
     expectation_dir = ''C.expected'', expectation_paths = {}\<rparr>"

definition empty_repo_env :: test_env where
  "empty_repo_env = \<lparr>glob_match = (\<lambda>pattern name. pattern = name),
     workers = (\<lambda>collect_coverage q. ([], if collect_coverage then [[], []] else [])),
     cov_report = (\<lambda>data. (''Name Stmts Miss Cover Missing'', Inr 50)),
     terminal_columns = 80, verbose_logging = False\<rparr>"

definition demo_reporter :: Reporter where
  "demo_reporter = Reporter_init 80 False False False"

definition demo_shards :: "cov_data list" where
  "demo_shards = [[(''recipes/B.py'', {1, 2})], [(''recipes/B.py'', {2, 3})]]"

definition demo_outcome :: Outcome where
  "demo_outcome = Outcome_init\<lparr>oc_test_results :=
     [(''B.ok'', \<lparr>tr_internal_error = [], tr_bad_test = [], tr_crash_mismatch = [],
        tr_check = [], tr_diff = None, tr_removed = False, tr_written = False\<rparr>)]\<rparr>"

subsection \<open>recipe\_api.py: PathsClient\<close>

record PathsClient =
  paths :: "Path list"
  path_strings :: "string list"

text \<open>
  \<open>bisect.bisect_left(a, x)\<close> of the standard library: the loop
  \<^verbatim>\<open>while lo < hi: mid = (lo+hi)//2; if a[mid] < x: lo = mid+1 else: hi = mid\<close>.
\<close>

function bisect_left :: "string list \<Rightarrow> string \<Rightarrow> nat \<Rightarrow> nat \<Rightarrow> nat" where
  "bisect_left a x lo hi =
     (if lo < hi then
        (let mid = (lo + hi) div 2 in
         if a ! mid < x then bisect_left a x (mid + 1) hi
         else bisect_left a x lo mid)
      else lo)"
  by pat_completeness auto
termination
  by (relation "measure (\<lambda>(a, x, lo, hi). hi - lo)") auto

text \<open>
  The tail of \<open>_initialize_with_recipe_api\<close>: the crawl has produced the paths it
  found, in crawl order; \<open>paths_found[str(path)] = path\<close> stores each one, and
  \<open>zip(*sorted(paths_found.items()))\<close> transposes the sorted items. Unpacking the
  transposition of no items at all raises ValueError.
\<close>

definition paths_found_of :: "Path list \<Rightarrow> (string \<times> Path) list" where
  "paths_found_of found = fold (\<lambda>p d. AList.update (str_of_Path p) p d) found []"

definition initialize_index :: "Path list \<Rightarrow> py_error + PathsClient" where
  "initialize_index found =
     (let items = sort_key fst (paths_found_of found) in
      if items = [] then Inl (ValueError ''need more than 0 values to unpack'')
      else Inr \<lparr>paths = map snd items, path_strings = map fst items\<rparr>)"

text \<open>
  \<open>find_longest_prefix\<close>. The Python result \<open>(None, None)\<close> is \<open>None\<close> here and
  \<open>(sPath, path)\<close> is \<open>Some (sPath, path)\<close>. Indexing a tuple out of range raises
  IndexError.
\<close>

definition find_longest_prefix ::
  "PathsClient \<Rightarrow> string \<Rightarrow> string \<Rightarrow> py_error + (string \<times> Path) option" where
  "find_longest_prefix self target sep =
     (let idx = bisect_left (path_strings self) target 0 (length (path_strings self)) in
      if idx = length (paths self) then Inr None
      else if \<not> (idx < length (path_strings self) \<and> idx < length (paths self))
        then Inl IndexError
      else
        (let sPath = path_strings self ! idx; path = paths self ! idx in
         if target = sPath then Inr (Some (sPath, path))
         else if idx > 0 then
           (let sPath = path_strings self ! (idx - 1); path = paths self ! (idx - 1) in
            if startswith target (sPath @ sep) then Inr (Some (sPath, path))
            else Inr None)
         else Inr None))"

text \<open>
  The condition of the docstring, "a known resource path which would contain the target":
  an index entry that is the target itself or is followed in the target by the separator.
\<close>

definition contains_target :: "string \<Rightarrow> string \<Rightarrow> string \<Rightarrow> bool" where
  "contains_target target sep entry = (entry = target \<or> startswith target (entry @ sep))"

subsection \<open>recipe\_api.py: deferred results\<close>

text \<open>
  Modelled from the spec: the result of a step (\<open>StepData\<close>, which is not among the
  sources) carries the step's name and its \<open>exc_result\<close>, an \<open>ExecutionResult\<close>. Both
  objects are truthy.
\<close>

record StepData =
  sd_name :: string
  sd_exc_result :: ExecutionResult

text \<open>
  \<open>StepFailure\<close> and its subclasses. The class is a field, since \<open>reason_message\<close> is the
  only method the subclasses override. The \<open>result\<close> of a failure is nothing, the data of
  a step, or (for \<open>AggregatedStepFailure\<close>) the \<open>AggregatedResult\<close> object, here its
  address in the store of the deferring context.
\<close>

datatype failure_class =
  StepFailure_class | StepWarning_class | InfraFailure_class | AggregatedStepFailure_class

datatype failure_result = Result_None | Result_StepData StepData | Result_AggregatedResult nat

record StepFailure =
  sf_class :: failure_class
  sf_name :: "string option"
  sf_result :: failure_result
  sf_reason :: string
  sf_exc_result :: "ExecutionResult option"

datatype val =
    V_None
  | V_Int int
  | V_Str string
  | V_StepData StepData
  | DeferredResult val "StepFailure option"

text \<open>
  \<open>AggregatedResult\<close>. Its \<open>retcode\<close> attribute is always \<open>None\<close> and is never read
  by the functions embedded here; it has no \<open>exc_result\<close> attribute.
\<close>

record AggregatedResult =
  successes :: "val list"
  failures :: "StepFailure list"
  contains_infra_failure :: bool

definition AggregatedResult_init :: AggregatedResult where
  "AggregatedResult_init = \<lparr>successes = [], failures = [], contains_infra_failure = False\<rparr>"

text \<open>
  What a piece of recipe code does: it returns a value or raises. \<open>StepFailure\<close> and its
  subclasses are the exceptions the decorators catch; every other exception passes through
  them.
\<close>

datatype exn = StepFailure_exn StepFailure | AssertionError string | TypeError_exn | Other_exn string

datatype completion = Returned val | Threw exn

text \<open>
  \<open>_DEFER_CONTEXT_OBJ\<close>: the two stacks, with the top at the end of the list as in the
  source. The \<open>AggregatedResult\<close> objects are mutated through references held by the stack
  and by the decorators, so they live in a store (\<open>objects\<close>) and the stack holds
  addresses; \<open>begin_aggregate\<close> allocates. \<open>steps_ran\<close> is not in the source: it logs the
  names of the steps that were executed, in order. Both stacks start with one frame and
  every \<open>_enter\<close> is followed by its \<open>_exit\<close>, so they are never empty; on an empty stack
  the source would raise IndexError.
\<close>

record DEFER_CONTEXT =
  ran_step_stack :: "bool list"
  aggregated_result_stack :: "nat option list"
  objects :: "AggregatedResult list"
  steps_ran :: "string list"

type_synonym prog = "DEFER_CONTEXT \<Rightarrow> completion \<times> DEFER_CONTEXT"

definition DEFER_CONTEXT_init :: DEFER_CONTEXT where
  "DEFER_CONTEXT_init =
     \<lparr>ran_step_stack = [False], aggregated_result_stack = [None], objects = [], steps_ran = []\<rparr>"

definition ran_step :: "DEFER_CONTEXT \<Rightarrow> bool" where
  "ran_step self = last (ran_step_stack self)"

definition mark_ran_step :: "DEFER_CONTEXT \<Rightarrow> DEFER_CONTEXT" where
  "mark_ran_step self =
     self\<lparr>ran_step_stack := (ran_step_stack self)[length (ran_step_stack self) - 1 := True]\<rparr>"

definition aggregated_result :: "DEFER_CONTEXT \<Rightarrow> nat option" where
  "aggregated_result self = last (aggregated_result_stack self)"

definition enter :: "nat option \<Rightarrow> DEFER_CONTEXT \<Rightarrow> DEFER_CONTEXT" where
  "enter agg self =
     self\<lparr>ran_step_stack := ran_step_stack self @ [False],
          aggregated_result_stack := aggregated_result_stack self @ [agg]\<rparr>"

definition exit :: "DEFER_CONTEXT \<Rightarrow> DEFER_CONTEXT" where
  "exit self =
     self\<lparr>ran_step_stack := butlast (ran_step_stack self),
          aggregated_result_stack := butlast (aggregated_result_stack self)\<rparr>"

definition begin_aggregate :: "(nat \<Rightarrow> prog) \<Rightarrow> prog" where
  "begin_aggregate body self =
     (let agg = length (objects self);
          self1 = enter (Some agg) (self\<lparr>objects := objects self @ [AggregatedResult_init]\<rparr>)
      in case body agg self1 of (r, self2) \<Rightarrow> (r, exit self2))"

definition begin_normal :: "prog \<Rightarrow> prog" where
  "begin_normal body self = (case body (enter None self) of (r, self2) \<Rightarrow> (r, exit self2))"

definition add_success :: "nat \<Rightarrow> val \<Rightarrow> prog" where
  "add_success agg result self =
     (Returned (DeferredResult result None),
      self\<lparr>objects := (objects self)
         [agg := (objects self ! agg)\<lparr>successes := successes (objects self ! agg) @ [result]\<rparr>]\<rparr>)"

definition add_failure :: "nat \<Rightarrow> StepFailure \<Rightarrow> prog" where
  "add_failure agg exception self =
     (Returned (DeferredResult V_None (Some exception)),
      self\<lparr>objects := (objects self)
         [agg := (objects self ! agg)\<lparr>failures := failures (objects self ! agg) @ [exception]\<rparr>]\<rparr>)"

text \<open>
  \<open>StepFailure.__init__\<close>, \<open>reason_message\<close> of the classes, and the properties
  \<open>had_timeout\<close> and \<open>retcode\<close>. \<open>repr_retcode\<close> is \<open>{!r}\<close> of an int or None.
\<close>

definition repr_retcode :: "int option \<Rightarrow> string" where
  "repr_retcode r = (case r of None \<Rightarrow> ''None'' | Some i \<Rightarrow> repr_int i)"

definition reason_or_name :: "StepFailure \<Rightarrow> string option" where
  "reason_or_name f = (if sf_reason f \<noteq> [] then Some (sf_reason f) else sf_name f)"

fun join :: "string \<Rightarrow> string list \<Rightarrow> string" where
  "join s [] = []"
| "join s [x] = x"
| "join s (x # y # rest) = x @ s @ join s (y # rest)"

definition step_reason_message :: "failure_class \<Rightarrow> string \<Rightarrow> string" where
  "step_reason_message cls name =
     (case cls of
        StepWarning_class \<Rightarrow> ''Warning: Step('' @ repr_str name @ '')''
      | InfraFailure_class \<Rightarrow> ''Infra Failure: Step('' @ repr_str name @ '')''
      | _ \<Rightarrow> ''Step('' @ repr_str name @ '')'')"

definition failure_reason :: "failure_class \<Rightarrow> string \<Rightarrow> ExecutionResult \<Rightarrow> string" where
  "failure_reason cls name exc_result =
     step_reason_message cls name
       @ (if had_timeout exc_result then '' (timeout)''
          else '' (retcode: '' @ repr_retcode (retcode exc_result) @ '')'')"

definition new_StepFailure ::
  "failure_class \<Rightarrow> string \<Rightarrow> StepData option \<Rightarrow> DEFER_CONTEXT \<Rightarrow> StepFailure \<times> DEFER_CONTEXT" where
  "new_StepFailure cls name_or_reason result self =
     (let self = mark_ran_step self in
      case result of
        Some step_data \<Rightarrow>
          (\<lparr>sf_class = cls, sf_name = Some name_or_reason, sf_result = Result_StepData step_data,
            sf_reason = failure_reason cls name_or_reason (sd_exc_result step_data),
            sf_exc_result = Some (sd_exc_result step_data)\<rparr>, self)
      | None \<Rightarrow>
          (\<lparr>sf_class = cls, sf_name = None, sf_result = Result_None,
            sf_reason = name_or_reason, sf_exc_result = None\<rparr>, self))"

definition aggregate_reason_message :: "AggregatedResult \<Rightarrow> string option" where
  "aggregate_reason_message result =
     (if None \<in> set (map reason_or_name (failures result)) then None
      else Some (repr_int (int (length (failures result))) @ '' out of ''
                 @ repr_int (int (length (successes result) + length (failures result)))
                 @ '' aggregated steps failed: ''
                 @ join '', '' (map (\<lambda>f. the (reason_or_name f)) (failures result))))"

definition new_AggregatedStepFailure :: "nat \<Rightarrow> DEFER_CONTEXT \<Rightarrow> (exn + StepFailure) \<times> DEFER_CONTEXT" where
  "new_AggregatedStepFailure agg self =
     (let self = mark_ran_step self in
      case aggregate_reason_message (objects self ! agg) of
        None \<Rightarrow> (Inl TypeError_exn, self)
      | Some reason \<Rightarrow>
          (Inr \<lparr>sf_class = AggregatedStepFailure_class, sf_name = Some ''Aggregate step failure.'',
                sf_result = Result_AggregatedResult agg, sf_reason = reason,
                sf_exc_result = None\<rparr>, self))"

definition sf_had_timeout :: "StepFailure \<Rightarrow> bool option" where
  "sf_had_timeout self =
     (case sf_exc_result self of None \<Rightarrow> None | Some e \<Rightarrow> Some (had_timeout e))"

definition sf_retcode :: "StepFailure \<Rightarrow> int option" where
  "sf_retcode self =
     (case sf_exc_result self of None \<Rightarrow> None | Some e \<Rightarrow> retcode e)"

text \<open>
  The decorators. The first argument of \<open>infer_composite_step\<close> is the
  \<open>_skip_inference\<close> attribute of the function it decorates. The body of each
  \<^verbatim>\<open>with _DEFER_CONTEXT.begin_normal():\<close> catches \<open>StepFailure\<close> only.
\<close>

definition infer_composite_step :: "bool \<Rightarrow> prog \<Rightarrow> prog" where
  "infer_composite_step skip_inference func =
     (if skip_inference then func
      else (\<lambda>self.
        case aggregated_result self of
          None \<Rightarrow> func self
        | Some agg \<Rightarrow>
            begin_normal
              (\<lambda>self. case func self of
                 (Returned ret, self1) \<Rightarrow>
                   if \<not> ran_step self1 then (Returned ret, self1)
                   else add_success agg ret self1
               | (Threw (StepFailure_exn ex), self1) \<Rightarrow> add_failure agg ex self1
               | (Threw e, self1) \<Rightarrow> (Threw e, self1))
              self))"

definition composite_step :: "prog \<Rightarrow> prog" where
  "composite_step func self =
     (let self = mark_ran_step self in
      case aggregated_result self of
        None \<Rightarrow> func self
      | Some agg \<Rightarrow>
          begin_normal
            (\<lambda>self. case func self of
               (Returned ret, self1) \<Rightarrow> add_success agg ret self1
             | (Threw (StepFailure_exn ex), self1) \<Rightarrow> add_failure agg ex self1
             | (Threw e, self1) \<Rightarrow> (Threw e, self1))
            self)"

definition defer_results :: "prog \<Rightarrow> prog" where
  "defer_results body self =
     (if aggregated_result self \<noteq> None
      then (Threw (AssertionError ''may not call defer_results in an active defer_results context''),
            self)
      else
        (case begin_aggregate (\<lambda>agg. body) self of
           (Threw e, self1) \<Rightarrow> (Threw e, self1)
         | (Returned _, self1) \<Rightarrow>
             (let agg = length (objects self) in
              if failures (objects self1 ! agg) \<noteq> [] then
                (case new_AggregatedStepFailure agg self1 of
                   (Inl e, self2) \<Rightarrow> (Threw e, self2)
                 | (Inr ex, self2) \<Rightarrow> (Threw (StepFailure_exn ex), self2))
              else (Returned V_None, self1))))"

text \<open>
  Recipe code: one statement after another, and \<open>return\<close>.
\<close>

definition seq :: "prog \<Rightarrow> prog \<Rightarrow> prog" where
  "seq first second self =
     (case first self of
        (Threw e, self1) \<Rightarrow> (Threw e, self1)
      | (Returned _, self1) \<Rightarrow> second self1)"

definition return :: "val \<Rightarrow> prog" where
  "return v self = (Returned v, self)"

text \<open>
  Modelled from the spec: the step call (\<open>api.step\<close>, whose module is not among the
  sources) is a \<open>composite_step\<close> that runs the command and returns the step's data; it
  raises a \<open>StepFailure\<close> carrying that data when the step finished with a non-zero
  retcode, and an \<open>InfraFailure\<close> when the step is an infra step, timed out or was
  cancelled.
\<close>

definition step_fails :: "ExecutionResult \<Rightarrow> bool" where
  "step_fails e = (retcode e \<noteq> Some 0 \<or> had_timeout e \<or> was_cancelled e)"

definition failure_class_of :: "ExecutionResult \<Rightarrow> bool \<Rightarrow> failure_class" where
  "failure_class_of e is_infra_step =
     (if is_infra_step \<or> had_timeout e \<or> was_cancelled e then InfraFailure_class
      else StepFailure_class)"

definition run_or_raise_step :: "string \<Rightarrow> ExecutionResult \<Rightarrow> bool \<Rightarrow> prog" where
  "run_or_raise_step name e is_infra_step self =
     (let self = self\<lparr>steps_ran := steps_ran self @ [name]\<rparr>;
          step_data = \<lparr>sd_name = name, sd_exc_result = e\<rparr>
      in if step_fails e then
           (case new_StepFailure (failure_class_of e is_infra_step) name (Some step_data) self of
              (ex, self1) \<Rightarrow> (Threw (StepFailure_exn ex), self1))
         else (Returned (V_StepData step_data), self))"

definition step :: "string \<Rightarrow> ExecutionResult \<Rightarrow> prog" where
  "step name e = composite_step (run_or_raise_step name e False)"

definition failed_with :: "int \<Rightarrow> ExecutionResult" where
  "failed_with rc = \<lparr>retcode = Some rc, had_timeout = False, was_cancelled = False\<rparr>"

definition timed_out_with :: "int \<Rightarrow> ExecutionResult" where
  "timed_out_with rc = \<lparr>retcode = Some rc, had_timeout = True, was_cancelled = False\<rparr>"


text \<open>
  The \<open>StepFailure\<close> a piece of code raised, if it raised one.
\<close>

fun raised_failure :: "completion \<Rightarrow> StepFailure option" where
  "raised_failure (Threw (StepFailure_exn ex)) = Some ex"
| "raised_failure _ = None"

text \<open>
  The context inside the outermost \<^verbatim>\<open>with defer_results():\<close> of a recipe, and two methods
  of a recipe module as \<open>RecipeApiMeta\<close> wraps them: one runs a step and returns 5, the
  other runs the same step inside a \<open>defer_results\<close> scope of its own and returns 5.
\<close>

definition inside_defer_scope :: DEFER_CONTEXT where
  "inside_defer_scope = enter (Some 0) (DEFER_CONTEXT_init\<lparr>objects := [AggregatedResult_init]\<rparr>)"

definition succeeded :: ExecutionResult where
  "succeeded = \<lparr>retcode = Some 0, had_timeout = False, was_cancelled = False\<rparr>"

definition nested_defer_method :: prog where
  "nested_defer_method = seq (defer_results (step ''x'' succeeded)) (return (V_Int 5))"

definition direct_step_method :: prog where
  "direct_step_method = seq (step ''x'' succeeded) (return (V_Int 5))"

section \<open>Properties\<close>

subsection \<open>Resolving argv[0]\<close>

lemma try_exts_find:
  "try_exts os base exts = List.find (is_executable_file os) (map (\<lambda>ext. base @ ext) exts)"
  by (induction exts) (auto simp: Let_def)

lemma resolve_base_path_find:
  "resolve_base_path os base = List.find (is_executable_file os) (candidates os base)"
  by (simp add: resolve_base_path_def candidates_def try_exts_find PATH_EXTS_def)

lemma find_append:
  "List.find P (xs @ ys) = (case List.find P xs of Some x \<Rightarrow> Some x | None \<Rightarrow> List.find P ys)"
  by (induction xs) auto

lemma resolve_base_path_nonempty:
  "\<not> is_executable_file os [] \<Longrightarrow> resolve_base_path os base = Some c \<Longrightarrow> c \<noteq> []"
  by (auto simp: resolve_base_path_find dest: find_Some_iff[THEN iffD1])

lemma search_paths_find:
  "\<not> is_executable_file os [] \<Longrightarrow>
   search_paths os cmd0 path_dirs =
     List.find (is_executable_file os) (concat (map (\<lambda>path. candidates os (os_join os path cmd0)) path_dirs))"
proof (induction path_dirs)
  case Nil
  then show ?case by simp
next
  case (Cons path rest)
  show ?case
  proof (cases "resolve_base_path os (os_join os path cmd0)")
    case None
    with Cons show ?thesis by (simp add: find_append resolve_base_path_find)
  next
    case (Some c)
    have "c \<noteq> []" using resolve_base_path_nonempty [OF Cons.prems Some] .
    with Some show ?thesis by (simp add: find_append resolve_base_path_find [symmetric])
  qed
qed

text \<open>
  Claim C1: \<open>resolve_cmd0\<close> looks at \<open>cmd0\<close> itself when it is absolute (PATH and cwd
  unused), at \<open>cmd0\<close> joined to cwd when it contains the path separator, and otherwise at
  \<open>cmd0\<close> joined to each PATH entry in order; a base path with an extension is its own
  only candidate, one without is tried with \<open>.exe\<close> then \<open>.bat\<close> on Windows and as it
  is on POSIX; the result is the first candidate that is a regular file with execute
  permission, and \<open>None\<close> when there is none. The empty path is no file on any platform.
\<close>

theorem resolve_cmd0_first_executable_candidate:
  assumes "\<not> is_executable_file os []"
  shows "resolve_cmd0 os cmd0 cwd_dir path_dirs =
     List.find (is_executable_file os)
       (concat (map (candidates os) (base_paths os cmd0 cwd_dir path_dirs)))"
  using assms
  by (simp add: resolve_cmd0_def base_paths_def resolve_base_path_find search_paths_find
      comp_def)

lemma demo_os_empty_path: "\<not> is_executable_file demo_os []"
  by (simp add: demo_os_def posix_def is_executable_file_def)

lemma demo_find_PATH:
  "List.find (is_executable_file demo_os)
     (concat (map (candidates demo_os) (base_paths demo_os ''python'' ''/home/build'' [''/bin'', ''/usr/bin''])))
   = Some ''/usr/bin/python''"
  by code_simp

lemma demo_find_cwd:
  "List.find (is_executable_file demo_os)
     (concat (map (candidates demo_os) (base_paths demo_os ''tools/run.sh'' ''/home/build'' [''/bin'', ''/usr/bin''])))
   = Some ''/home/build/tools/run.sh''"
  by code_simp

lemma demo_find_abs:
  "List.find (is_executable_file demo_os)
     (concat (map (candidates demo_os) (base_paths demo_os ''/bin/ls'' ''/home/build'' [''/bin'', ''/usr/bin''])))
   = None"
  by code_simp

theorem resolve_cmd0_first_executable_candidate_witness:
  "\<not> is_executable_file demo_os []
   \<and> resolve_cmd0 demo_os ''python'' ''/home/build'' [''/bin'', ''/usr/bin''] = Some ''/usr/bin/python''
   \<and> resolve_cmd0 demo_os ''tools/run.sh'' ''/home/build'' [''/bin'', ''/usr/bin'']
       = Some ''/home/build/tools/run.sh''
   \<and> resolve_cmd0 demo_os ''/bin/ls'' ''/home/build'' [''/bin'', ''/usr/bin''] = None"
  using demo_os_empty_path
    resolve_cmd0_first_executable_candidate [OF demo_os_empty_path]
    demo_find_PATH demo_find_cwd demo_find_abs
  by simp

subsection \<open>Waiting for the subprocess\<close>

lemma proc_wait_calls: "calls (snd (proc_wait timed proc)) = calls proc"
  by (simp add: proc_wait_def split: prod.splits wait_outcome.splits)

lemma await_untimed_not_TimedOut: "fst (await False es) \<noteq> TimedOut"
proof (induction es)
  case Nil
  then show ?case by simp
next
  case (Cons e es)
  then show ?case by (cases e) simp_all
qed

lemma proc_wait_untimed_returncode:
  "proc_wait False proc = (Returns u, p) \<Longrightarrow> returncode p \<noteq> None"
  using await_untimed_not_TimedOut [of "events proc"]
  by (auto simp: proc_wait_def split: if_splits prod.splits wait_outcome.splits)

lemma kill_posix_group:
  assumes "kill_posix proc (Some g) = (Returns k, p2)"
  shows "calls p2 = calls proc @ [Killpg g SIGTERM, Killpg g SIGKILL] \<and> k = returncode p2 \<and> k \<noteq> None"
proof -
  obtain r1 p1 where w1: "proc_wait True (proc\<lparr>calls := calls proc @ [Killpg g SIGTERM]\<rparr>) = (r1, p1)"
    by (cases "proc_wait True (proc\<lparr>calls := calls proc @ [Killpg g SIGTERM]\<rparr>)")
  obtain r2 p2' where w2: "proc_wait False (p1\<lparr>calls := calls p1 @ [Killpg g SIGKILL]\<rparr>) = (r2, p2')"
    by (cases "proc_wait False (p1\<lparr>calls := calls p1 @ [Killpg g SIGKILL]\<rparr>)")
  from assms w1 w2 have r1: "r1 = Returns ()" and r2: "r2 = Returns ()" and p: "p2' = p2"
    and k: "k = returncode p2"
    by (auto simp: kill_posix_def killpg_def split: result.splits)
  have c1: "calls p1 = calls proc @ [Killpg g SIGTERM]"
    using proc_wait_calls [of True "proc\<lparr>calls := calls proc @ [Killpg g SIGTERM]\<rparr>"] w1 by simp
  have c2: "calls p2 = calls p1 @ [Killpg g SIGKILL]"
    using proc_wait_calls [of False "p1\<lparr>calls := calls p1 @ [Killpg g SIGKILL]\<rparr>"] w2 p by simp
  have "returncode p2 \<noteq> None"
    using proc_wait_untimed_returncode w2 r2 p by blast
  with c1 c2 k show ?thesis by simp
qed

lemma await_untimed_Elapses:
  "await False (replicate n Elapses @ Exits rc # es) = (Exited rc, es)"
  by (induction n) auto

lemma kill_posix_returns:
  assumes "returncode proc = None" and "events proc = replicate n Elapses @ Exits rc # es"
  shows "fst (kill_posix proc (Some g)) = Returns (Some rc)"
proof (cases n)
  case 0
  with assms show ?thesis
    by (simp add: kill_posix_def killpg_def proc_wait_def)
next
  case (Suc m)
  with assms show ?thesis
    by (simp add: kill_posix_def killpg_def proc_wait_def await_untimed_Elapses)
qed

lemma kill_windows_child:
  assumes "kill_windows proc gid = (Returns k, p2)"
  shows "calls p2 = calls proc @
           (if returncode proc = None \<and> fst (await True (events proc)) = TimedOut
            then [Send_signal CTRL_BREAK_EVENT, Terminate]
            else [Send_signal CTRL_BREAK_EVENT])
         \<and> k = returncode p2 \<and> k \<noteq> None"
proof -
  define p1 where "p1 = proc\<lparr>calls := calls proc @ [Send_signal CTRL_BREAK_EVENT]\<rparr>"
  obtain r1 q1 where w1: "proc_wait True p1 = (r1, q1)"
    by (cases "proc_wait True p1")
  have c1: "calls q1 = calls proc @ [Send_signal CTRL_BREAK_EVENT]"
    using proc_wait_calls [of True p1] w1 by (simp add: p1_def)
  from assms w1 have r1: "r1 = Returns ()"
    by (auto simp: kill_windows_def Let_def p1_def split: result.splits)
  have known: "returncode q1 = None \<longleftrightarrow>
      returncode proc = None \<and> fst (await True (events proc)) = TimedOut"
    using w1 r1
    by (auto simp: proc_wait_def p1_def split: if_splits prod.splits wait_outcome.splits)
  show ?thesis
  proof (cases "returncode q1 = None")
    case False
    with assms w1 r1 have "p2 = q1" "k = returncode q1"
      by (auto simp: kill_windows_def Let_def p1_def)
    with False c1 known show ?thesis by auto
  next
    case True
    obtain r2 q2 where w2: "proc_wait False (q1\<lparr>calls := calls q1 @ [Terminate]\<rparr>) = (r2, q2)"
      by (cases "proc_wait False (q1\<lparr>calls := calls q1 @ [Terminate]\<rparr>)")
    from assms w1 r1 True w2 have r2: "r2 = Returns ()" and p: "p2 = q2" and k: "k = returncode q2"
      by (auto simp: kill_windows_def Let_def p1_def split: result.splits)
    have c2: "calls q2 = calls q1 @ [Terminate]"
      using proc_wait_calls [of False "q1\<lparr>calls := calls q1 @ [Terminate]\<rparr>"] w2 by simp
    have "returncode q2 \<noteq> None"
      using proc_wait_untimed_returncode w2 r2 by blast
    with True c1 c2 known p k show ?thesis by auto
  qed
qed

text \<open>
  Claim C2 says that a timeout that expires before the process exits always gives
  \<open>had_timeout = true\<close>. The kill that follows the timeout waits for the process, and a
  GreenletExit raised during that wait is caught by the same handler as one raised during
  the first wait: the result then has \<open>was_cancelled\<close> set and \<open>had_timeout\<close> unset.
  With a process that outlives the timeout, is sent SIGTERM, and whose greenlet is cancelled
  during the thirty seconds of grace, the wait times out and the result has no
  \<open>had_timeout\<close>.
\<close>

theorem wait_proc_had_timeout_counterexample:
  "returncode (spawned [Elapses, Cancelled, Exits (- 15)]) = None
   \<and> fst (await True (events (spawned [Elapses, Cancelled, Exits (- 15)]))) = TimedOut
   \<and> wait_proc False (spawned [Elapses, Cancelled, Exits (- 15)]) (Some 7) (Some 1)
       = (Returns \<lparr>retcode = Some (- 15), had_timeout = False, was_cancelled = True\<rparr>,
          \<lparr>returncode = Some (- 15), events = [],
           calls = [Killpg 7 SIGTERM, Killpg 7 SIGTERM, Killpg 7 SIGKILL]\<rparr>)"
  by (simp add: wait_proc_def spawned_def proc_wait_def poll_def kill_def kill_posix_def
      killpg_def on_GreenletExit_def ExecutionResult_init_def)

text \<open>
  Claim C2 as the code has it. If the process has exited, or exits during the wait, the
  result carries its return code and both flags are false. If the timeout elapses first and
  the kill returns, the result has \<open>had_timeout\<close> and the return code the kill returned.
  If the greenlet is cancelled during the wait, or during the kill that follows a timeout,
  and the handler's kill returns, the result has \<open>was_cancelled\<close>, not \<open>had_timeout\<close>,
  and the return code the handler's kill returned. A kill that returns returns the return
  code of the process, which is then known. On POSIX it has sent SIGTERM and then SIGKILL
  to the process group. On Windows it has sent CTRL\_BREAK\_EVENT and, only when the process
  had not exited by the end of the thirty seconds of grace, has terminated the process it
  spawned, and nothing else: the group is not killed there.
\<close>

theorem wait_proc_results:
  "(returncode proc = Some rc
      \<longrightarrow> wait_proc mswindows proc gid timeout
          = (Returns \<lparr>retcode = Some rc, had_timeout = False, was_cancelled = False\<rparr>, proc))
   \<and> (returncode proc = None \<and> await (timeout \<noteq> None) (events proc) = (Exited rc, es)
      \<longrightarrow> wait_proc mswindows proc gid timeout
          = (Returns \<lparr>retcode = Some rc, had_timeout = False, was_cancelled = False\<rparr>,
             proc\<lparr>returncode := Some rc, events := es\<rparr>))
   \<and> (returncode proc = None \<and> await True (events proc) = (TimedOut, es)
        \<and> kill mswindows (proc\<lparr>events := es\<rparr>) gid = (Returns k, p2)
      \<longrightarrow> wait_proc mswindows proc gid (Some t)
          = (Returns \<lparr>retcode = k, had_timeout = True, was_cancelled = False\<rparr>, p2))
   \<and> (returncode proc = None \<and> await True (events proc) = (TimedOut, es)
        \<and> kill mswindows (proc\<lparr>events := es\<rparr>) gid = (Raises GreenletExit, p2)
        \<and> kill mswindows p2 gid = (Returns k, p3)
      \<longrightarrow> wait_proc mswindows proc gid (Some t)
          = (Returns \<lparr>retcode = k, had_timeout = False, was_cancelled = True\<rparr>, p3))
   \<and> (returncode proc = None \<and> await (timeout \<noteq> None) (events proc) = (Killed, es)
        \<and> kill mswindows (proc\<lparr>events := es\<rparr>) gid = (Returns k, p2)
      \<longrightarrow> wait_proc mswindows proc gid timeout
          = (Returns \<lparr>retcode = k, had_timeout = False, was_cancelled = True\<rparr>, p2))
   \<and> (kill False proc (Some g) = (Returns k, p2)
      \<longrightarrow> calls p2 = calls proc @ [Killpg g SIGTERM, Killpg g SIGKILL] \<and> k = returncode p2
          \<and> k \<noteq> None)
   \<and> (kill True proc gid = (Returns k, p2)
      \<longrightarrow> calls p2 = calls proc @
            (if returncode proc = None \<and> fst (await True (events proc)) = TimedOut
             then [Send_signal CTRL_BREAK_EVENT, Terminate]
             else [Send_signal CTRL_BREAK_EVENT])
          \<and> k = returncode p2 \<and> k \<noteq> None)"
proof -
  have c0: "returncode proc = Some rc
      \<longrightarrow> wait_proc mswindows proc gid timeout
          = (Returns \<lparr>retcode = Some rc, had_timeout = False, was_cancelled = False\<rparr>, proc)"
    by (simp add: wait_proc_def proc_wait_def poll_def ExecutionResult_init_def)
  have c1: "returncode proc = None \<and> await (timeout \<noteq> None) (events proc) = (Exited rc, es)
      \<longrightarrow> wait_proc mswindows proc gid timeout
          = (Returns \<lparr>retcode = Some rc, had_timeout = False, was_cancelled = False\<rparr>,
             proc\<lparr>returncode := Some rc, events := es\<rparr>)"
    by (simp add: wait_proc_def proc_wait_def poll_def ExecutionResult_init_def)
  have c2: "returncode proc = None \<and> await True (events proc) = (TimedOut, es)
        \<and> kill mswindows (proc\<lparr>events := es\<rparr>) gid = (Returns k, p2)
      \<longrightarrow> wait_proc mswindows proc gid (Some t)
          = (Returns \<lparr>retcode = k, had_timeout = True, was_cancelled = False\<rparr>, p2)"
    by (simp add: wait_proc_def proc_wait_def poll_def ExecutionResult_init_def)
  have c3: "returncode proc = None \<and> await True (events proc) = (TimedOut, es)
        \<and> kill mswindows (proc\<lparr>events := es\<rparr>) gid = (Raises GreenletExit, p2)
        \<and> kill mswindows p2 gid = (Returns k, p3)
      \<longrightarrow> wait_proc mswindows proc gid (Some t)
          = (Returns \<lparr>retcode = k, had_timeout = False, was_cancelled = True\<rparr>, p3)"
    by (simp add: wait_proc_def proc_wait_def poll_def ExecutionResult_init_def on_GreenletExit_def)
  have c4: "returncode proc = None \<and> await (timeout \<noteq> None) (events proc) = (Killed, es)
        \<and> kill mswindows (proc\<lparr>events := es\<rparr>) gid = (Returns k, p2)
      \<longrightarrow> wait_proc mswindows proc gid timeout
          = (Returns \<lparr>retcode = k, had_timeout = False, was_cancelled = True\<rparr>, p2)"
    by (simp add: wait_proc_def proc_wait_def poll_def ExecutionResult_init_def on_GreenletExit_def)
  have c5: "kill False proc (Some g) = (Returns k, p2)
      \<longrightarrow> calls p2 = calls proc @ [Killpg g SIGTERM, Killpg g SIGKILL] \<and> k = returncode p2
          \<and> k \<noteq> None"
    using kill_posix_group [of proc g k p2] by (simp add: kill_def)
  have c6: "kill True proc gid = (Returns k, p2)
      \<longrightarrow> calls p2 = calls proc @
            (if returncode proc = None \<and> fst (await True (events proc)) = TimedOut
             then [Send_signal CTRL_BREAK_EVENT, Terminate]
             else [Send_signal CTRL_BREAK_EVENT])
          \<and> k = returncode p2 \<and> k \<noteq> None"
    using kill_windows_child [of proc gid k p2] by (simp add: kill_def)
  show ?thesis using c0 c1 c2 c3 c4 c5 c6 by blast
qed

theorem wait_proc_results_witness:
  "wait_proc False (spawned [Exits 3]) (Some 7) (Some 1)
     = (Returns \<lparr>retcode = Some 3, had_timeout = False, was_cancelled = False\<rparr>,
        \<lparr>returncode = Some 3, events = [], calls = []\<rparr>)
   \<and> wait_proc False (spawned [Elapses, Elapses, Exits (- 9)]) (Some 7) (Some 1)
     = (Returns \<lparr>retcode = Some (- 9), had_timeout = True, was_cancelled = False\<rparr>,
        \<lparr>returncode = Some (- 9), events = [], calls = [Killpg 7 SIGTERM, Killpg 7 SIGKILL]\<rparr>)
   \<and> wait_proc False (spawned [Elapses, Cancelled, Exits (- 15)]) (Some 7) (Some 1)
     = (Returns \<lparr>retcode = Some (- 15), had_timeout = False, was_cancelled = True\<rparr>,
        \<lparr>returncode = Some (- 15), events = [],
         calls = [Killpg 7 SIGTERM, Killpg 7 SIGTERM, Killpg 7 SIGKILL]\<rparr>)
   \<and> wait_proc True (spawned [Cancelled, Exits 1]) None None
     = (Returns \<lparr>retcode = Some 1, had_timeout = False, was_cancelled = True\<rparr>,
        \<lparr>returncode = Some 1, events = [], calls = [Send_signal CTRL_BREAK_EVENT]\<rparr>)
   \<and> kill False (spawned [Elapses, Exits (- 9)]) (Some 7)
     = (Returns (Some (- 9)),
        \<lparr>returncode = Some (- 9), events = [], calls = [Killpg 7 SIGTERM, Killpg 7 SIGKILL]\<rparr>)
   \<and> wait_proc True (spawned [Elapses, Elapses, Exits 1]) None (Some 1)
     = (Returns \<lparr>retcode = Some 1, had_timeout = True, was_cancelled = False\<rparr>,
        \<lparr>returncode = Some 1, events = [],
         calls = [Send_signal CTRL_BREAK_EVENT, Terminate]\<rparr>)
   \<and> kill True (spawned [Exits 0]) None
     = (Returns (Some 0),
        \<lparr>returncode = Some 0, events = [], calls = [Send_signal CTRL_BREAK_EVENT]\<rparr>)"
proof -
  have w1: "wait_proc False (spawned [Exits 3]) (Some 7) (Some 1)
     = (Returns \<lparr>retcode = Some 3, had_timeout = False, was_cancelled = False\<rparr>,
        \<lparr>returncode = Some 3, events = [], calls = []\<rparr>)"
    using wait_proc_results [where proc = "spawned [Exits 3]" and timeout = "Some 1"
        and rc = 3 and es = "[]" and mswindows = False and gid = "Some 7"]
    by (simp add: spawned_def)
  have w2: "wait_proc False (spawned [Elapses, Elapses, Exits (- 9)]) (Some 7) (Some 1)
     = (Returns \<lparr>retcode = Some (- 9), had_timeout = True, was_cancelled = False\<rparr>,
        \<lparr>returncode = Some (- 9), events = [], calls = [Killpg 7 SIGTERM, Killpg 7 SIGKILL]\<rparr>)"
    using wait_proc_results [where proc = "spawned [Elapses, Elapses, Exits (- 9)]"
        and es = "[Elapses, Exits (- 9)]" and mswindows = False and gid = "Some 7"
        and k = "Some (- 9)" and t = 1
        and ?p2.0 = "\<lparr>returncode = Some (- 9), events = [],
                     calls = [Killpg 7 SIGTERM, Killpg 7 SIGKILL]\<rparr>"]
    by (simp add: spawned_def kill_def kill_posix_def killpg_def proc_wait_def)
  have w3: "wait_proc False (spawned [Elapses, Cancelled, Exits (- 15)]) (Some 7) (Some 1)
     = (Returns \<lparr>retcode = Some (- 15), had_timeout = False, was_cancelled = True\<rparr>,
        \<lparr>returncode = Some (- 15), events = [],
         calls = [Killpg 7 SIGTERM, Killpg 7 SIGTERM, Killpg 7 SIGKILL]\<rparr>)"
    using wait_proc_results [where proc = "spawned [Elapses, Cancelled, Exits (- 15)]"
        and es = "[Cancelled, Exits (- 15)]" and mswindows = False and gid = "Some 7"
        and k = "Some (- 15)" and t = 1
        and ?p2.0 = "\<lparr>returncode = None, events = [Exits (- 15)], calls = [Killpg 7 SIGTERM]\<rparr>"
        and ?p3.0 = "\<lparr>returncode = Some (- 15), events = [],
                     calls = [Killpg 7 SIGTERM, Killpg 7 SIGTERM, Killpg 7 SIGKILL]\<rparr>"]
    by (simp add: spawned_def kill_def kill_posix_def killpg_def proc_wait_def)
  have w4: "wait_proc True (spawned [Cancelled, Exits 1]) None None
     = (Returns \<lparr>retcode = Some 1, had_timeout = False, was_cancelled = True\<rparr>,
        \<lparr>returncode = Some 1, events = [], calls = [Send_signal CTRL_BREAK_EVENT]\<rparr>)"
    using wait_proc_results [where proc = "spawned [Cancelled, Exits 1]" and timeout = None
        and es = "[Exits 1]" and mswindows = True and gid = None and k = "Some 1"
        and ?p2.0 = "\<lparr>returncode = Some 1, events = [], calls = [Send_signal CTRL_BREAK_EVENT]\<rparr>"]
    by (simp add: spawned_def kill_def kill_windows_def proc_wait_def)
  have w5: "kill False (spawned [Elapses, Exits (- 9)]) (Some 7)
     = (Returns (Some (- 9)),
        \<lparr>returncode = Some (- 9), events = [], calls = [Killpg 7 SIGTERM, Killpg 7 SIGKILL]\<rparr>)"
    by (simp add: spawned_def kill_def kill_posix_def killpg_def proc_wait_def)
  have w6: "wait_proc True (spawned [Elapses, Elapses, Exits 1]) None (Some 1)
     = (Returns \<lparr>retcode = Some 1, had_timeout = True, was_cancelled = False\<rparr>,
        \<lparr>returncode = Some 1, events = [],
         calls = [Send_signal CTRL_BREAK_EVENT, Terminate]\<rparr>)"
    using wait_proc_results [where proc = "spawned [Elapses, Elapses, Exits 1]"
        and es = "[Elapses, Exits 1]" and mswindows = True and gid = None
        and k = "Some 1" and t = 1
        and ?p2.0 = "\<lparr>returncode = Some 1, events = [],
                     calls = [Send_signal CTRL_BREAK_EVENT, Terminate]\<rparr>"]
    by (simp add: spawned_def kill_def kill_windows_def proc_wait_def)
  have w7: "kill True (spawned [Exits 0]) None
     = (Returns (Some 0),
        \<lparr>returncode = Some 0, events = [], calls = [Send_signal CTRL_BREAK_EVENT]\<rparr>)"
    by (simp add: spawned_def kill_def kill_windows_def proc_wait_def)
  show ?thesis using w1 w2 w3 w4 w5 w6 w7 by simp
qed

subsection \<open>The test driver\<close>

lemma push_cases_registered:
  "distinct (map (expect_file_of r) xs) \<Longrightarrow> \<forall>x \<in> set xs. fn (expect_file_of r x) = None \<Longrightarrow>
   fn (expect_file_of r n) = Some og \<Longrightarrow>
   push_cases r tf (xs @ n # rest) fn used q = (Inl (duplicate_error r og n), q @ queued r tf xs)"
proof (induction xs arbitrary: fn used q)
  case Nil
  then show ?case by (simp add: duplicate_error_def queued_def)
next
  case (Cons x xs)
  let ?fn = "fn(expect_file_of r x \<mapsto> x)"
  from Cons.prems have fresh: "fn (expect_file_of r x) = None" by simp
  with Cons.prems(3) have ne: "expect_file_of r x \<noteq> expect_file_of r n" by auto
  have d: "distinct (map (expect_file_of r) xs)" using Cons.prems(1) by simp
  have f: "\<forall>y \<in> set xs. ?fn (expect_file_of r y) = None"
  proof
    fix y assume y: "y \<in> set xs"
    then have "expect_file_of r y \<in> expect_file_of r ` set xs" by (rule imageI)
    with Cons.prems(1) have "expect_file_of r y \<noteq> expect_file_of r x" by auto
    with y Cons.prems(2) show "?fn (expect_file_of r y) = None" by simp
  qed
  have g: "?fn (expect_file_of r n) = Some og" using Cons.prems(3) ne by simp
  note ih = Cons.IH [OF d f g]
  show ?case using fresh by (simp add: ih queued_def Let_def)
qed

lemma push_cases_duplicate:
  "distinct (map (expect_file_of r) xs) \<Longrightarrow> \<forall>x \<in> set xs. fn (expect_file_of r x) = None \<Longrightarrow>
   fn (expect_file_of r n) = None \<Longrightarrow>
   List.find (\<lambda>x. expect_file_of r x = expect_file_of r n) xs = Some og \<Longrightarrow>
   push_cases r tf (xs @ n # rest) fn used q = (Inl (duplicate_error r og n), q @ queued r tf xs)"
proof (induction xs arbitrary: fn used q)
  case Nil
  then show ?case by simp
next
  case (Cons x xs)
  let ?fn = "fn(expect_file_of r x \<mapsto> x)"
  from Cons.prems have fresh: "fn (expect_file_of r x) = None" by simp
  have d: "distinct (map (expect_file_of r) xs)" using Cons.prems(1) by simp
  have f: "\<forall>y \<in> set xs. ?fn (expect_file_of r y) = None"
  proof
    fix y assume y: "y \<in> set xs"
    then have "expect_file_of r y \<in> expect_file_of r ` set xs" by (rule imageI)
    with Cons.prems(1) have "expect_file_of r y \<noteq> expect_file_of r x" by auto
    with y Cons.prems(2) show "?fn (expect_file_of r y) = None" by simp
  qed
  show ?case
  proof (cases "expect_file_of r x = expect_file_of r n")
    case True
    with Cons.prems(4) have og: "og = x" by simp
    have g: "?fn (expect_file_of r n) = Some og" using True og by simp
    note reg = push_cases_registered [OF d f g]
    show ?thesis using fresh by (simp add: reg queued_def Let_def)
  next
    case False
    then have g: "?fn (expect_file_of r n) = None" using Cons.prems(3) by simp
    from False Cons.prems(4)
    have h: "List.find (\<lambda>x. expect_file_of r x = expect_file_of r n) xs = Some og" by simp
    note ih = Cons.IH [OF d f g h]
    show ?thesis using fresh by (simp add: ih queued_def Let_def)
  qed
qed

lemma push_cases_distinct:
  "distinct (map (expect_file_of r) xs) \<Longrightarrow> \<forall>x \<in> set xs. fn (expect_file_of r x) = None \<Longrightarrow>
   \<exists>u. push_cases r tf xs fn used q = (Inr u, q @ queued r tf xs)"
proof (induction xs arbitrary: fn used q)
  case Nil
  then show ?case by (simp add: queued_def)
next
  case (Cons x xs)
  let ?fn = "fn(expect_file_of r x \<mapsto> x)"
  from Cons.prems have fresh: "fn (expect_file_of r x) = None" by simp
  have d: "distinct (map (expect_file_of r) xs)" using Cons.prems(1) by simp
  have f: "\<forall>y \<in> set xs. ?fn (expect_file_of r y) = None"
  proof
    fix y assume y: "y \<in> set xs"
    then have "expect_file_of r y \<in> expect_file_of r ` set xs" by (rule imageI)
    with Cons.prems(1) have "expect_file_of r y \<noteq> expect_file_of r x" by auto
    with y Cons.prems(2) show "?fn (expect_file_of r y) = None" by simp
  qed
  note ih = Cons.IH [OF d f]
  show ?case
  proof (cases "tf (recipe_name r @ ''.'' @ x)")
    case True
    obtain u where "push_cases r tf xs ?fn (insert (expect_file_of r x) used)
        (q @ [(recipe_name r, x)]) = (Inr u, (q @ [(recipe_name r, x)]) @ queued r tf xs)"
      using ih by blast
    then show ?thesis using fresh True by (simp add: queued_def Let_def)
  next
    case False
    obtain u where "push_cases r tf xs ?fn (insert (expect_file_of r x) used) q
        = (Inr u, q @ queued r tf xs)"
      using ih by blast
    then show ?thesis using fresh False by (simp add: queued_def Let_def)
  qed
qed

lemma push_recipe_duplicate:
  assumes "gen_tests r = xs @ n # rest" and "distinct (map (expect_file_of r) xs)"
    and "List.find (\<lambda>x. expect_file_of r x = expect_file_of r n) xs = Some og"
  shows "fst (push_recipe tf is_train r st) = Inl (duplicate_error r og n)
     \<and> description_queue (snd (push_recipe tf is_train r st)) = description_queue st @ queued r tf xs"
proof -
  have "\<And>q. push_cases r tf (xs @ n # rest) Map.empty {} q
      = (Inl (duplicate_error r og n), q @ queued r tf xs)"
    using push_cases_duplicate [OF assms(2) _ _ assms(3)] by simp
  then show ?thesis using assms(1) by (simp add: push_recipe_def)
qed

lemma push_recipe_distinct:
  assumes "distinct (map (expect_file_of p) (gen_tests p))" and "gen_tests_raises p = None"
  shows "\<exists>u st1. push_recipe tf is_train p st = (Inr u, st1)"
proof -
  obtain u where "push_cases p tf (gen_tests p) Map.empty {}
      (description_queue (if is_train then st\<lparr>made_dirs := made_dirs st @ [expectation_dir p]\<rparr> else st))
      = (Inr u, description_queue (if is_train then st\<lparr>made_dirs := made_dirs st @ [expectation_dir p]\<rparr> else st)
           @ queued p tf (gen_tests p))"
    using push_cases_distinct [OF assms(1), of Map.empty] by fastforce
  then show ?thesis using assms(2) by (simp add: push_recipe_def Let_def)
qed

lemma push_recipes_good_prefix:
  "\<forall>p \<in> set pre. rf (recipe_name p) \<longrightarrow>
      distinct (map (expect_file_of p) (gen_tests p)) \<and> gen_tests_raises p = None \<Longrightarrow>
   \<exists>u st1. push_recipes rf tf is_train pre unused st = (Inr u, st1)
     \<and> (\<forall>rest. push_recipes rf tf is_train (pre @ rest) unused st
                = push_recipes rf tf is_train rest u st1)"
proof (induction pre arbitrary: unused st)
  case Nil
  then show ?case by simp
next
  case (Cons p pre)
  show ?case
  proof (cases "rf (recipe_name p)")
    case False
    with Cons show ?thesis by simp
  next
    case True
    with Cons.prems obtain u st1 where p: "push_recipe tf is_train p st = (Inr u, st1)"
      using push_recipe_distinct [of p tf is_train st] by auto
    from Cons.prems have "\<forall>p \<in> set pre. rf (recipe_name p) \<longrightarrow>
      distinct (map (expect_file_of p) (gen_tests p)) \<and> gen_tests_raises p = None" by simp
    from Cons.IH [OF this, of "unused \<union> u" st1] show ?thesis using True p by simp
  qed
qed

lemma push_recipes_duplicate:
  assumes good: "\<forall>p \<in> set pre. rf (recipe_name p) \<longrightarrow>
      distinct (map (expect_file_of p) (gen_tests p)) \<and> gen_tests_raises p = None"
    and r: "rf (recipe_name r)"
    and g: "gen_tests r = xs @ n # rest"
    and d: "distinct (map (expect_file_of r) xs)"
    and f: "List.find (\<lambda>x. expect_file_of r x = expect_file_of r n) xs = Some og"
  shows "fst (push_recipes rf tf is_train (pre @ r # post) {} st) = Inl (duplicate_error r og n)
     \<and> description_queue (snd (push_recipes rf tf is_train (pre @ r # post) {} st))
       = description_queue (snd (push_recipes rf tf is_train pre {} st)) @ queued r tf xs"
proof -
  obtain u st1 where pre: "push_recipes rf tf is_train pre {} st = (Inr u, st1)"
    and app: "\<And>rest. push_recipes rf tf is_train (pre @ rest) {} st
                = push_recipes rf tf is_train rest u st1"
    using push_recipes_good_prefix [OF good, of tf is_train "{}" st] by blast
  note dup = push_recipe_duplicate [OF g d f, of tf is_train st1]
  obtain e st2 where p: "push_recipe tf is_train r st1 = (e, st2)"
    by (cases "push_recipe tf is_train r st1")
  with dup have e: "e = Inl (duplicate_error r og n)"
    and q: "description_queue st2 = description_queue st1 @ queued r tf xs" by simp_all
  show ?thesis using app [of "r # post"] pre r p e q by simp
qed

lemma push_recipe_Inr_stdout:
  "push_recipe tf is_train p st = (Inr u, st1) \<Longrightarrow> stdout st1 = stdout st"
  by (auto simp: push_recipe_def Let_def split: prod.splits sum.splits option.splits if_splits)

lemma push_recipes_Inr_stdout:
  "push_recipes rf tf is_train ps unused st = (Inr u, st1) \<Longrightarrow> stdout st1 = stdout st"
proof (induction ps arbitrary: unused st)
  case Nil
  then show ?case by simp
next
  case (Cons p ps)
  show ?case
  proof (cases "rf (recipe_name p)")
    case False
    with Cons show ?thesis by simp
  next
    case True
    obtain e st2 where p: "push_recipe tf is_train p st = (e, st2)"
      by (cases "push_recipe tf is_train p st")
    with Cons.prems True obtain u2 where e: "e = Inr u2"
      by (cases e) auto
    from p e have "stdout st2 = stdout st" by (simp add: push_recipe_Inr_stdout)
    moreover from Cons.prems True p e
    have "push_recipes rf tf is_train ps (unused \<union> u2) st2 = (Inr u, st1)" by simp
    then have "stdout st1 = stdout st2" by (rule Cons.IH)
    ultimately show ?thesis by simp
  qed
qed

lemma push_recipe_duplicate_stdout:
  assumes "gen_tests r = xs @ n # rest" and "distinct (map (expect_file_of r) xs)"
    and "List.find (\<lambda>x. expect_file_of r x = expect_file_of r n) xs = Some og"
  shows "stdout (snd (push_recipe tf is_train r st)) = stdout st @
     [Line ''USER CODE ERROR:'',
      Line (''Crashed while running GenTests from recipe '' @ repr_str (recipe_name r))]"
proof -
  have "\<And>q. push_cases r tf (xs @ n # rest) Map.empty {} q
      = (Inl (duplicate_error r og n), q @ queued r tf xs)"
    using push_cases_duplicate [OF assms(2) _ _ assms(3)] by simp
  then show ?thesis using assms(1) by (simp add: push_recipe_def user_code_error_def)
qed

lemma push_recipes_duplicate_stdout:
  assumes good: "\<forall>p \<in> set pre. rf (recipe_name p) \<longrightarrow>
      distinct (map (expect_file_of p) (gen_tests p)) \<and> gen_tests_raises p = None"
    and r: "rf (recipe_name r)"
    and g: "gen_tests r = xs @ n # rest"
    and d: "distinct (map (expect_file_of r) xs)"
    and f: "List.find (\<lambda>x. expect_file_of r x = expect_file_of r n) xs = Some og"
  shows "stdout (snd (push_recipes rf tf is_train (pre @ r # post) {} st)) = stdout st @
     [Line ''USER CODE ERROR:'',
      Line (''Crashed while running GenTests from recipe '' @ repr_str (recipe_name r))]"
proof -
  obtain u st1 where pre: "push_recipes rf tf is_train pre {} st = (Inr u, st1)"
    and app: "\<And>rest. push_recipes rf tf is_train (pre @ rest) {} st
                = push_recipes rf tf is_train rest u st1"
    using push_recipes_good_prefix [OF good, of tf is_train "{}" st] by blast
  have s1: "stdout st1 = stdout st"
    using pre by (rule push_recipes_Inr_stdout)
  note out = push_recipe_duplicate_stdout [OF g d f, of tf is_train st1]
  note dup = push_recipe_duplicate [OF g d f, of tf is_train st1]
  obtain e st2 where p: "push_recipe tf is_train r st1 = (e, st2)"
    by (cases "push_recipe tf is_train r st1")
  with dup out have e: "e = Inl (duplicate_error r og n)"
    and o: "stdout st2 = stdout st1 @
     [Line ''USER CODE ERROR:'',
      Line (''Crashed while running GenTests from recipe '' @ repr_str (recipe_name r))]"
    by simp_all
  show ?thesis using app [of "r # post"] r p e o s1 by simp
qed

text \<open>
  Claim C9 as the code has it. When the test cases a recipe emits hold two with the same
  expectation file (two with the same name have the same file), \<open>_push_tests\<close> raises
  ValueError at the second: "duplicate name" when the names are equal, "maps to the same
  JSON file" otherwise. Its \<open>except\<close> clause prints "USER CODE ERROR:" and the line naming
  the recipe, and re-raises. The exception leaves \<open>_run\<close>: the run stops with it, its
  whole output is those two lines, it reports no outcome, and the queue holds what was
  pushed before, so the recipe's later tests and the tests of the recipes after it are never
  pushed.
\<close>

theorem duplicate_test_aborts_run:
  assumes "extract_filter_matchers (glob_match tenv) test_filters = (rf, tf)"
    and "\<forall>p \<in> set pre. rf (recipe_name p) \<longrightarrow>
      distinct (map (expect_file_of p) (gen_tests p)) \<and> gen_tests_raises p = None"
    and "rf (recipe_name r)"
    and "gen_tests r = xs @ n # rest"
    and "distinct (map (expect_file_of r) xs)"
    and "List.find (\<lambda>x. expect_file_of r x = expect_file_of r n) xs = Some og"
  shows "fst (run tenv test_result (pre @ r # post) modules use_emoji test_filters is_train)
       = Inl (duplicate_error r og n)
     \<and> oc_test_results (snd (snd
          (run tenv test_result (pre @ r # post) modules use_emoji test_filters is_train)))
       = oc_test_results test_result
     \<and> fst (push_tests (glob_match tenv) test_filters is_train (pre @ r # post) st)
       = Inl (duplicate_error r og n)
     \<and> description_queue (snd
          (push_tests (glob_match tenv) test_filters is_train (pre @ r # post) st))
       = description_queue (snd (push_recipes rf tf is_train pre {} st)) @ queued r tf xs
     \<and> stdout (snd (push_tests (glob_match tenv) test_filters is_train (pre @ r # post) st))
       = stdout st @
         [Line ''USER CODE ERROR:'',
          Line (''Crashed while running GenTests from recipe '' @ repr_str (recipe_name r))]
     \<and> fst (snd (run tenv test_result (pre @ r # post) modules use_emoji test_filters is_train))
       = [Line ''USER CODE ERROR:'',
          Line (''Crashed while running GenTests from recipe '' @ repr_str (recipe_name r))]"
proof -
  note dup = push_recipes_duplicate [OF assms(2-6), of tf is_train post]
  note out = push_recipes_duplicate_stdout [OF assms(2-6), of tf is_train post]
  have pt: "\<And>st. \<exists>st1. push_tests (glob_match tenv) test_filters is_train (pre @ r # post) st
        = (Inl (duplicate_error r og n), st1)
      \<and> description_queue st1
        = description_queue (snd (push_recipes rf tf is_train pre {} st)) @ queued r tf xs
      \<and> stdout st1 = stdout st @
         [Line ''USER CODE ERROR:'',
          Line (''Crashed while running GenTests from recipe '' @ repr_str (recipe_name r))]"
  proof -
    fix st
    obtain e st1 where p: "push_recipes rf tf is_train (pre @ r # post) {} st = (e, st1)"
      by (cases "push_recipes rf tf is_train (pre @ r # post) {} st")
    with dup [of st] out [of st] have "e = Inl (duplicate_error r og n)"
      and "description_queue st1
        = description_queue (snd (push_recipes rf tf is_train pre {} st)) @ queued r tf xs"
      and "stdout st1 = stdout st @
         [Line ''USER CODE ERROR:'',
          Line (''Crashed while running GenTests from recipe '' @ repr_str (recipe_name r))]"
      by simp_all
    then show "\<exists>st1. push_tests (glob_match tenv) test_filters is_train (pre @ r # post) st
        = (Inl (duplicate_error r og n), st1)
      \<and> description_queue st1
        = description_queue (snd (push_recipes rf tf is_train pre {} st)) @ queued r tf xs
      \<and> stdout st1 = stdout st @
         [Line ''USER CODE ERROR:'',
          Line (''Crashed while running GenTests from recipe '' @ repr_str (recipe_name r))]"
      using assms(1) p by (simp add: push_tests_def)
  qed
  obtain st1 where a: "push_tests (glob_match tenv) test_filters is_train (pre @ r # post)
        \<lparr>description_queue = [], stdout = [], made_dirs = [], removed_files = {}\<rparr>
        = (Inl (duplicate_error r og n), st1)"
    and a2: "stdout st1 =
         [Line ''USER CODE ERROR:'',
          Line (''Crashed while running GenTests from recipe '' @ repr_str (recipe_name r))]"
    using pt [of "\<lparr>description_queue = [], stdout = [], made_dirs = [], removed_files = {}\<rparr>"]
    by auto
  obtain st2 where b: "push_tests (glob_match tenv) test_filters is_train (pre @ r # post) st
        = (Inl (duplicate_error r og n), st2)"
    and c: "description_queue st2
        = description_queue (snd (push_recipes rf tf is_train pre {} st)) @ queued r tf xs"
    and c2: "stdout st2 = stdout st @
         [Line ''USER CODE ERROR:'',
          Line (''Crashed while running GenTests from recipe '' @ repr_str (recipe_name r))]"
    using pt by blast
  show ?thesis using a a2 b c c2 by (simp add: run_def Let_def)
qed

lemma demo_matchers:
  "extract_filter_matchers (glob_match demo_env) [] = ((\<lambda>_. True), (\<lambda>_. True))"
  by (simp add: extract_filter_matchers_def)

theorem duplicate_test_aborts_run_witness:
  "fst (run demo_env Outcome_init ([recipe_B] @ recipe_A # [recipe_C]) [] False [] False)
     = Inl (ValueError (duplicate_name_message ''basic''))
   \<and> oc_test_results (snd (snd
        (run demo_env Outcome_init ([recipe_B] @ recipe_A # [recipe_C]) [] False [] False))) = []
   \<and> description_queue (snd
        (push_tests (glob_match demo_env) [] False ([recipe_B] @ recipe_A # [recipe_C]) push_state_init))
     = [(''B'', ''ok''), (''A'', ''basic''), (''A'', ''other'')]
   \<and> fst (run demo_env Outcome_init ([] @ recipe_C # [recipe_B]) [] False [] False)
     = Inl (ValueError (same_file_message ''two'' ''one'' ''C.expected/one.json''))
   \<and> fst (snd (run demo_env Outcome_init ([recipe_B] @ recipe_A # [recipe_C]) [] False [] False))
     = [Line ''USER CODE ERROR:'',
        Line (''Crashed while running GenTests from recipe '' @ [CHR 0x27, CHR ''A'', CHR 0x27])]
   \<and> stdout (snd
        (push_tests (glob_match demo_env) [] False ([recipe_B] @ recipe_A # [recipe_C]) push_state_init))
     = [Line ''USER CODE ERROR:'',
        Line (''Crashed while running GenTests from recipe '' @ [CHR 0x27, CHR ''A'', CHR 0x27])]"
proof -
  have good: "\<forall>p \<in> set [recipe_B]. (\<lambda>_. True) (recipe_name p) \<longrightarrow>
      distinct (map (expect_file_of p) (gen_tests p)) \<and> gen_tests_raises p = None"
    by (simp add: recipe_B_def)
  have gA: "gen_tests recipe_A = [''basic'', ''other''] @ ''basic'' # [''last'']"
    by (simp add: recipe_A_def)
  have dA: "distinct (map (expect_file_of recipe_A) [''basic'', ''other''])"
    by (simp add: recipe_A_def expect_json_def)
  have fA: "List.find (\<lambda>x. expect_file_of recipe_A x = expect_file_of recipe_A ''basic'')
      [''basic'', ''other''] = Some ''basic''"
    by simp
  note A = duplicate_test_aborts_run [OF demo_matchers good _ gA dA fA,
      of Outcome_init "[recipe_C]" "[]" False False push_state_init]
  have good0: "\<forall>p \<in> set []. (\<lambda>_. True) (recipe_name p) \<longrightarrow>
      distinct (map (expect_file_of p) (gen_tests p)) \<and> gen_tests_raises p = None"
    by simp
  have gC: "gen_tests recipe_C = [''one''] @ ''two'' # [''three'']"
    by (simp add: recipe_C_def)
  have dC: "distinct (map (expect_file_of recipe_C) [''one''])" by simp
  have fC: "List.find (\<lambda>x. expect_file_of recipe_C x = expect_file_of recipe_C ''two'')
      [''one''] = Some ''one''"
    by (simp add: recipe_C_def expect_json_def)
  note C = duplicate_test_aborts_run [OF demo_matchers good0 _ gC dC fC,
      of Outcome_init "[recipe_B]" "[]" False False push_state_init]
  have qB: "description_queue (snd (push_recipes (\<lambda>_. True) (\<lambda>_. True) False [recipe_B] {} push_state_init))
      = [(''B'', ''ok'')]"
    by (simp add: push_recipe_def recipe_B_def push_state_init_def)
  have efC: "expect_file_of recipe_C ''two'' = ''C.expected/one.json''" by (simp add: recipe_C_def)
  have rA: "repr_str ''A'' = [CHR 0x27, CHR ''A'', CHR 0x27]" by code_simp
  have nA: "recipe_name recipe_A = ''A''" by (simp add: recipe_A_def)
  have s0: "stdout push_state_init = []" by (simp add: push_state_init_def)
  show ?thesis using A C qB efC
    by (simp add: duplicate_error_def Outcome_init_def queued_def recipe_A_def rA s0)
qed

text \<open>
  Claim C9 says a duplicate is surfaced as a "bad\_test" failure of that test and does not
  abort the run. With recipe A emitting \<open>basic\<close>, \<open>other\<close>, \<open>basic\<close>, \<open>last\<close> and
  recipe B emitting \<open>ok\<close>, the run ends with the ValueError, its output is the two lines
  of the \<open>except\<close> clause, no test result is recorded, and neither \<open>last\<close> nor B's test
  was queued.
\<close>

theorem duplicate_test_is_not_a_bad_test_counterexample:
  "run demo_env Outcome_init [recipe_A, recipe_B] [] False [] False
     = (Inl (ValueError (duplicate_name_message ''basic'')),
        [Line ''USER CODE ERROR:'',
         Line (''Crashed while running GenTests from recipe '' @ repr_str ''A'')],
        Outcome_init)
   \<and> description_queue (snd
        (push_tests (glob_match demo_env) [] False [recipe_A, recipe_B] push_state_init))
     = [(''A'', ''basic''), (''A'', ''other'')]"
  by (simp add: run_def push_tests_def demo_matchers push_recipe_def recipe_A_def recipe_B_def
      expect_json_def user_code_error_def uncovered_modules_of_def Outcome_init_def
      push_state_init_def Let_def)

lemma lines_of_update:
  "lines_of (AList.update f (case map_of d f of None \<Rightarrow> ls | Some l1 \<Rightarrow> l1 \<union> ls) d) g
     = (if g = f then lines_of d f \<union> ls else lines_of d g)"
proof (induction d)
  case Nil
  then show ?case by (auto simp: lines_of_def)
next
  case (Cons a d)
  obtain k v where a: "a = (k, v)" by (cases a)
  show ?case
  proof (cases "k = f")
    case True
    then show ?thesis using a by (auto simp: lines_of_def)
  next
    case False
    have split: "\<And>h e. lines_of ((k, v) # e) h = (if h = k then v else {}) \<union> lines_of e h"
      by (auto simp: lines_of_def)
    show ?thesis using False a Cons.IH by (auto simp: split)
  qed
qed

lemma lines_of_cov_update:
  "lines_of (cov_update self other_data) f = lines_of self f \<union> lines_of other_data f"
proof -
  have "\<And>d. lines_of (fold (\<lambda>(filename, file_lines) d.
             AList.update filename
               (case map_of d filename of None \<Rightarrow> file_lines | Some lines1 \<Rightarrow> lines1 \<union> file_lines) d)
       other_data d) f = lines_of d f \<union> lines_of other_data f"
  proof (induction other_data)
    case Nil
    then show ?case by (simp add: lines_of_def)
  next
    case (Cons a other_data)
    obtain k v where a: "a = (k, v)" by (cases a)
    have split: "\<And>h e. lines_of ((k, v) # e) h = (if h = k then v else {}) \<union> lines_of e h"
      by (auto simp: lines_of_def)
    show ?case using a by (auto simp: Cons.IH lines_of_update split)
  qed
  then show ?thesis by (simp add: cov_update_def)
qed

lemma lines_of_collect_coverage_data:
  "lines_of (collect_coverage_data shards) f = (\<Union>shard \<in> set shards. lines_of shard f)"
proof -
  have "\<And>d. lines_of (fold (\<lambda>thread_data data. cov_update data thread_data) shards d) f
      = lines_of d f \<union> (\<Union>shard \<in> set shards. lines_of shard f)"
    by (induction shards) (auto simp: lines_of_cov_update)
  then show ?thesis by (simp add: collect_coverage_data_def lines_of_def)
qed

lemma py_int_below_100: "p < 100 \<Longrightarrow> py_int p \<noteq> 100"
proof -
  assume p: "p < 100"
  show ?thesis
  proof (cases "p \<ge> 0")
    case True
    from p have "\<lfloor>p\<rfloor> \<noteq> 100" by linarith
    with True show ?thesis by (simp add: py_int_def)
  next
    case False
    then have "\<lceil>p\<rceil> \<noteq> 100" by linarith
    with False show ?thesis by (simp add: py_int_def)
  qed
qed

lemma py_int_100: "py_int 100 = 100"
  by (simp add: py_int_def)

lemma final_report_full_coverage:
  assumes "measured_files data \<noteq> []" and "report_fn data = (covf, Inr 100)"
    and "rp_long_err_buf self = []" and "oc_uncovered_modules msg = []"
    and "oc_unused_expectation_files msg = []"
  shows "fst (final_report report_fn self (Some data) msg) = Inr ()
     \<and> oc_coverage_percent (snd (snd (final_report report_fn self (Some data) msg))) = 100
     \<and> last (fst (snd (final_report report_fn self (Some data) msg))) = Line ''OK''"
  using assms by (simp add: final_report_def py_int_100)

lemma final_report_insufficient_coverage:
  assumes "measured_files data \<noteq> []" and "report_fn data = (covf, Inr p)" and "p < 100"
  shows "fst (final_report report_fn self (Some data) msg) = Inl (SystemExit 1)
     \<and> Line covf \<in> set (fst (snd (final_report report_fn self (Some data) msg)))
     \<and> Insufficient_coverage p \<in> set (fst (snd (final_report report_fn self (Some data) msg)))
     \<and> oc_coverage_percent (snd (snd (final_report report_fn self (Some data) msg))) = p"
  using assms py_int_below_100 [of p]
  by (simp add: final_report_def Let_def split: prod.splits)

lemma final_report_no_measured_files:
  "measured_files data = [] \<Longrightarrow>
   final_report report_fn self (Some data) msg = final_report report_fn self None msg"
  by (simp add: final_report_def)

lemma run_reports_merged_coverage:
  assumes "push_tests (glob_match tenv) [] is_train recipes
             \<lparr>description_queue = [], stdout = [], made_dirs = [], removed_files = {}\<rparr>
           = (Inr unused, st)"
    and "workers tenv True (description_queue st) = (outcomes, shards)"
    and "report_outcomes
           (Reporter_init (terminal_columns tenv) (verbose_logging tenv) use_emoji is_train)
           (test_result\<lparr>oc_uncovered_modules :=
                oc_uncovered_modules test_result @ uncovered_modules_of modules,
              oc_unused_expectation_files :=
                oc_unused_expectation_files test_result @ sorted_list_of_set unused\<rparr>)
           outcomes
         = (Inr (), printed, reporter, merged)"
  shows "fst (run tenv test_result recipes modules use_emoji [] is_train)
       = fst (final_report (cov_report tenv) reporter (Some (collect_coverage_data shards)) merged)
     \<and> snd (snd (run tenv test_result recipes modules use_emoji [] is_train))
       = snd (snd (final_report (cov_report tenv) reporter
                     (Some (collect_coverage_data shards)) merged))"
  using assms by (simp add: run_def Let_def split: prod.splits)

text \<open>
  Claim C8 as the code has it. With no filter the shards are merged by union, file by file,
  and the merged data goes to the final report. If the merged data has measured files the
  coverage report is made: a percent of 100 with no other failure lets the run succeed and
  print OK; a percent below 100 makes the final report raise SystemExit(1) after printing
  the report with its missing lines and the "insufficient coverage" line. With no measured
  file the final report does what it does without coverage data.
\<close>

theorem coverage_gate:
  "(\<forall>f. lines_of (collect_coverage_data shards) f = (\<Union>shard \<in> set shards. lines_of shard f))
   \<and> (push_tests (glob_match tenv) [] is_train recipes
             \<lparr>description_queue = [], stdout = [], made_dirs = [], removed_files = {}\<rparr>
           = (Inr unused, st)
        \<and> workers tenv True (description_queue st) = (outcomes, shards)
        \<and> report_outcomes
             (Reporter_init (terminal_columns tenv) (verbose_logging tenv) use_emoji is_train)
             (test_result\<lparr>oc_uncovered_modules :=
                  oc_uncovered_modules test_result @ uncovered_modules_of modules,
                oc_unused_expectation_files :=
                  oc_unused_expectation_files test_result @ sorted_list_of_set unused\<rparr>)
             outcomes
           = (Inr (), printed, reporter, merged)
      \<longrightarrow> fst (run tenv test_result recipes modules use_emoji [] is_train)
            = fst (final_report (cov_report tenv) reporter
                     (Some (collect_coverage_data shards)) merged)
          \<and> snd (snd (run tenv test_result recipes modules use_emoji [] is_train))
            = snd (snd (final_report (cov_report tenv) reporter
                          (Some (collect_coverage_data shards)) merged)))
   \<and> (measured_files data \<noteq> [] \<and> report_fn data = (covf, Inr 100)
        \<and> rp_long_err_buf self = [] \<and> oc_uncovered_modules msg = []
        \<and> oc_unused_expectation_files msg = []
      \<longrightarrow> fst (final_report report_fn self (Some data) msg) = Inr ()
          \<and> oc_coverage_percent (snd (snd (final_report report_fn self (Some data) msg))) = 100
          \<and> last (fst (snd (final_report report_fn self (Some data) msg))) = Line ''OK'')
   \<and> (measured_files data \<noteq> [] \<and> report_fn data = (covf, Inr p) \<and> p < 100
      \<longrightarrow> fst (final_report report_fn self (Some data) msg) = Inl (SystemExit 1)
          \<and> Line covf \<in> set (fst (snd (final_report report_fn self (Some data) msg)))
          \<and> Insufficient_coverage p
              \<in> set (fst (snd (final_report report_fn self (Some data) msg)))
          \<and> oc_coverage_percent (snd (snd (final_report report_fn self (Some data) msg))) = p)
   \<and> (measured_files data = []
      \<longrightarrow> final_report report_fn self (Some data) msg = final_report report_fn self None msg)"
  using lines_of_collect_coverage_data [of shards]
    run_reports_merged_coverage [of tenv is_train recipes unused st outcomes shards use_emoji
      test_result modules printed reporter merged]
    final_report_full_coverage [of data report_fn covf self msg]
    final_report_insufficient_coverage [of data report_fn covf p self msg]
    final_report_no_measured_files [of data report_fn self msg]
  by blast

lemma demo_collect: "collect_coverage_data demo_shards = [(''recipes/B.py'', {1, 2, 3})]"
  by (simp add: collect_coverage_data_def demo_shards_def cov_update_def insert_commute)

lemma demo_push:
  "push_tests (glob_match demo_env) [] False [recipe_B]
     \<lparr>description_queue = [], stdout = [], made_dirs = [], removed_files = {}\<rparr>
   = (Inr {}, \<lparr>description_queue = [(''B'', ''ok'')], stdout = [], made_dirs = [],
               removed_files = {}\<rparr>)"
  by (simp add: push_tests_def demo_matchers push_recipe_def recipe_B_def)

lemma demo_workers:
  "workers demo_env True [(''B'', ''ok'')] = ([demo_outcome], demo_shards)"
  by (simp add: demo_env_def demo_outcome_def demo_shards_def)

lemma demo_report_outcomes:
  "report_outcomes (Reporter_init (terminal_columns demo_env) (verbose_logging demo_env) False False)
     (Outcome_init\<lparr>oc_uncovered_modules := oc_uncovered_modules Outcome_init @ uncovered_modules_of [],
        oc_unused_expectation_files :=
          oc_unused_expectation_files Outcome_init @ sorted_list_of_set {}\<rparr>)
     [demo_outcome]
   = (Inr (), [Write ''.''], demo_reporter\<lparr>rp_symbol_count := 1\<rparr>, demo_outcome)"
  by (simp add: demo_env_def demo_outcome_def Outcome_init_def uncovered_modules_of_def
      MergeFrom_def short_report_def Reporter_init_def demo_reporter_def print_summary_info_def
      display_order_def print_detail_info_def detail_lines_def Let_def)

theorem coverage_gate_witness:
  "fst (run demo_env Outcome_init [recipe_B] [] False [] False) = Inr ()
   \<and> oc_coverage_percent (snd (snd (run demo_env Outcome_init [recipe_B] [] False [] False))) = 100
   \<and> lines_of (collect_coverage_data demo_shards) ''recipes/B.py'' = {1, 2, 3}
   \<and> fst (final_report (cov_report demo_env) demo_reporter (Some [(''recipes/B.py'', {1, 2})])
            Outcome_init) = Inl (SystemExit 1)
   \<and> Line ''Name Stmts Miss Cover Missing''
        \<in> set (fst (snd (final_report (cov_report demo_env) demo_reporter
                            (Some [(''recipes/B.py'', {1, 2})]) Outcome_init)))
   \<and> final_report (cov_report demo_env) demo_reporter (Some []) Outcome_init
       = final_report (cov_report demo_env) demo_reporter None Outcome_init"
proof -
  note c1 = coverage_gate [THEN conjunct1]
  note c2 = coverage_gate [THEN conjunct2, THEN conjunct1, THEN mp]
  note c3 = coverage_gate [where report_fn = "cov_report demo_env", THEN conjunct2, THEN conjunct2, THEN conjunct1, THEN mp]
  note c4 = coverage_gate [where report_fn = "cov_report demo_env", THEN conjunct2, THEN conjunct2, THEN conjunct2, THEN conjunct1, THEN mp]
  note c5 = coverage_gate [where report_fn = "cov_report demo_env", THEN conjunct2, THEN conjunct2, THEN conjunct2, THEN conjunct2, THEN mp]
  have h2: "push_tests (glob_match demo_env) [] False [recipe_B]
             \<lparr>description_queue = [], stdout = [], made_dirs = [], removed_files = {}\<rparr>
           = (Inr {}, \<lparr>description_queue = [(''B'', ''ok'')], stdout = [], made_dirs = [],
                       removed_files = {}\<rparr>)
      \<and> workers demo_env True (description_queue \<lparr>description_queue = [(''B'', ''ok'')],
            stdout = [], made_dirs = [], removed_files = {}\<rparr>) = ([demo_outcome], demo_shards)
      \<and> report_outcomes
             (Reporter_init (terminal_columns demo_env) (verbose_logging demo_env) False False)
             (Outcome_init\<lparr>oc_uncovered_modules :=
                  oc_uncovered_modules Outcome_init @ uncovered_modules_of [],
                oc_unused_expectation_files :=
                  oc_unused_expectation_files Outcome_init @ sorted_list_of_set {}\<rparr>)
             [demo_outcome]
           = (Inr (), [Write ''.''], demo_reporter\<lparr>rp_symbol_count := 1\<rparr>, demo_outcome)"
    using demo_push demo_workers demo_report_outcomes by simp
  note run_eq = c2 [OF h2]
  have h3: "measured_files (collect_coverage_data demo_shards) \<noteq> []
      \<and> cov_report demo_env (collect_coverage_data demo_shards)
          = (''Name Stmts Miss Cover Missing'', Inr 100)
      \<and> rp_long_err_buf (demo_reporter\<lparr>rp_symbol_count := 1\<rparr>) = []
      \<and> oc_uncovered_modules demo_outcome = []
      \<and> oc_unused_expectation_files demo_outcome = []"
    by (simp add: demo_collect measured_files_def demo_env_def demo_reporter_def
        Reporter_init_def demo_outcome_def Outcome_init_def lines_of_def)
  note full = c3 [OF h3]
  have union: "lines_of (collect_coverage_data demo_shards) ''recipes/B.py'' = {1, 2, 3}"
    using c1 [of demo_shards] by (auto simp: demo_shards_def lines_of_def)
  have h4: "measured_files [(''recipes/B.py'', {1::nat, 2})] \<noteq> []
      \<and> cov_report demo_env [(''recipes/B.py'', {1, 2})] = (''Name Stmts Miss Cover Missing'', Inr 50)
      \<and> (50::real) < 100"
    by (simp add: measured_files_def demo_env_def lines_of_def)
  note low = c4 [OF h4, of demo_reporter Outcome_init]
  have h5: "measured_files ([] :: cov_data) = []" by (simp add: measured_files_def)
  note none = c5 [OF h5, of demo_reporter Outcome_init]
  show ?thesis using run_eq full union low none by simp
qed

text \<open>
  Claim C8 says that with no filter a coverage report is produced and that any coverage
  below 100\% fails the run. In a repository without recipes the workers measure no file:
  the run prints no coverage report and succeeds, its outcome holding a coverage percent
  of 0.
\<close>

theorem no_coverage_report_without_measured_files_counterexample:
  "run empty_repo_env Outcome_init [] [] False [] False
     = (Inr (),
        [Line [], Line (replicate 70 CHR ''-''), Ran_tests 0, Line [], Line ''OK''],
        Outcome_init)
   \<and> oc_coverage_percent Outcome_init = 0"
  by (simp add: run_def push_tests_def extract_filter_matchers_def empty_repo_env_def
      uncovered_modules_of_def Outcome_init_def Reporter_init_def collect_coverage_data_def
      cov_update_def final_report_def measured_files_def Let_def)

subsection \<open>Deferred results\<close>

lemma butlast_snoc_update [simp]:
  "butlast ((ys @ [b])[length ys := c]) = ys"
  by (simp add: list_update_append)

lemma butlast_snoc_update' [simp]:
  "length ys = n \<Longrightarrow> butlast ((ys @ [b])[n := c]) = ys"
  by (auto simp: list_update_append)

lemma step_raises:
  "step_fails e \<Longrightarrow> aggregated_result self = Some agg \<Longrightarrow>
   step name e self =
     (Returned (DeferredResult V_None (Some
        \<lparr>sf_class = failure_class_of e False, sf_name = Some name,
          sf_result = Result_StepData \<lparr>sd_name = name, sd_exc_result = e\<rparr>,
          sf_reason = failure_reason (failure_class_of e False) name e,
          sf_exc_result = Some e\<rparr>)),
      self\<lparr>ran_step_stack := (ran_step_stack self)[length (ran_step_stack self) - 1 := True],
           steps_ran := steps_ran self @ [name],
           objects := (objects self)[agg := (objects self ! agg)\<lparr>failures :=
             failures (objects self ! agg) @
               [\<lparr>sf_class = failure_class_of e False, sf_name = Some name,
                 sf_result = Result_StepData \<lparr>sd_name = name, sd_exc_result = e\<rparr>,
                 sf_reason = failure_reason (failure_class_of e False) name e,
                 sf_exc_result = Some e\<rparr>]\<rparr>]\<rparr>)"
  by (simp add: step_def composite_step_def mark_ran_step_def aggregated_result_def
      begin_normal_def enter_def exit_def run_or_raise_step_def new_StepFailure_def
      add_failure_def Let_def)


lemma step_returns:
  "\<not> step_fails e \<Longrightarrow> aggregated_result self = Some agg \<Longrightarrow>
   step name e self =
     (Returned (DeferredResult (V_StepData \<lparr>sd_name = name, sd_exc_result = e\<rparr>) None),
      self\<lparr>ran_step_stack := (ran_step_stack self)[length (ran_step_stack self) - 1 := True],
           steps_ran := steps_ran self @ [name],
           objects := (objects self)[agg := (objects self ! agg)\<lparr>successes :=
             successes (objects self ! agg) @
               [V_StepData \<lparr>sd_name = name, sd_exc_result = e\<rparr>]\<rparr>]\<rparr>)"
  by (simp add: step_def composite_step_def mark_ran_step_def aggregated_result_def
      begin_normal_def enter_def exit_def run_or_raise_step_def add_success_def Let_def)

lemma repr_int_2: "repr_int 2 = ''2''"
  by code_simp

lemma failure_reason_nonempty: "failure_reason cls name e \<noteq> []"
  by (cases cls) (simp_all add: failure_reason_def step_reason_message_def)

text \<open>
  What \<open>infer_composite_step\<close> does inside a defer scope, by what the wrapped function did
  in its own non-deferring frame: a value returned with no step marked is passed on and the
  aggregate is untouched; a value returned after a step was marked is recorded as a success
  and comes back as a \<open>DeferredResult\<close>; a \<open>StepFailure\<close> is recorded as a failure, once,
  and comes back as a \<open>DeferredResult\<close>; any other exception propagates. Outside a defer
  scope the function runs as it is.
\<close>

lemma infer_composite_step_pure:
  assumes "aggregated_result self = Some agg"
    and "func (enter None self) = (Returned ret, self1)"
    and "\<not> ran_step self1"
  shows "infer_composite_step False func self = (Returned ret, exit self1)"
  using assms by (simp add: infer_composite_step_def begin_normal_def)

lemma infer_composite_step_ran_step:
  assumes "aggregated_result self = Some agg"
    and "func (enter None self) = (Returned ret, self1)"
    and "ran_step self1"
  shows "infer_composite_step False func self =
           (Returned (DeferredResult ret None), exit (snd (add_success agg ret self1)))"
  using assms by (simp add: infer_composite_step_def begin_normal_def add_success_def)

lemma infer_composite_step_StepFailure:
  assumes "aggregated_result self = Some agg"
    and "func (enter None self) = (Threw (StepFailure_exn ex), self1)"
  shows "infer_composite_step False func self =
           (Returned (DeferredResult V_None (Some ex)), exit (snd (add_failure agg ex self1)))"
  using assms by (simp add: infer_composite_step_def begin_normal_def add_failure_def)

lemma infer_composite_step_other_exception:
  assumes "aggregated_result self = Some agg"
    and "func (enter None self) = (Threw e, self1)"
    and "raised_failure (Threw e) = None"
  shows "infer_composite_step False func self = (Threw e, exit self1)"
  using assms by (cases e) (simp_all add: infer_composite_step_def begin_normal_def)

lemma infer_composite_step_not_deferring:
  "aggregated_result self = None \<Longrightarrow> infer_composite_step skip func self = func self"
  by (simp add: infer_composite_step_def)

text \<open>
  Claim C4 as the code has it. A \<open>defer_results\<close> scope entered outside any other, whose
  body is two failing step calls \<open>a\<close> and \<open>b\<close>, runs both steps and raises one
  \<open>AggregatedStepFailure\<close> on exit. Its reason is "2 out of 2 aggregated steps failed: "
  followed by the reasons of the two failures, each the step's name with its retcode (or
  with "(timeout)"). The exception has no \<open>exc_result\<close>, so its \<open>had_timeout\<close> property
  is \<open>None\<close>, whatever the children did.
\<close>

theorem defer_results_two_failing_steps:
  assumes top: "aggregated_result self = None"
    and "ran_step_stack self \<noteq> []" and "aggregated_result_stack self \<noteq> []"
    and f1: "step_fails e1" and f2: "step_fails e2"
  shows "fst (defer_results (seq (step a e1) (step b e2)) self) =
           Threw (StepFailure_exn
              \<lparr>sf_class = AggregatedStepFailure_class,
                sf_name = Some ''Aggregate step failure.'',
                sf_result = Result_AggregatedResult (length (objects self)),
                sf_reason = ''2 out of 2 aggregated steps failed: ''
                   @ failure_reason (failure_class_of e1 False) a e1 @ '', ''
                   @ failure_reason (failure_class_of e2 False) b e2,
                sf_exc_result = None\<rparr>)
         \<and> map_option sf_had_timeout
               (raised_failure (fst (defer_results (seq (step a e1) (step b e2)) self))) = Some None
         \<and> steps_ran (snd (defer_results (seq (step a e1) (step b e2)) self))
               = steps_ran self @ [a, b]"
proof -
  define agg where "agg = length (objects self)"
  define self1 where
    "self1 = enter (Some agg) (self\<lparr>objects := objects self @ [AggregatedResult_init]\<rparr>)"
  have a1: "aggregated_result self1 = Some agg"
    by (simp add: self1_def enter_def aggregated_result_def)
  define ex1 where "ex1 =
      \<lparr>sf_class = failure_class_of e1 False, sf_name = Some a,
        sf_result = Result_StepData \<lparr>sd_name = a, sd_exc_result = e1\<rparr>,
        sf_reason = failure_reason (failure_class_of e1 False) a e1,
        sf_exc_result = Some e1\<rparr>"
  define ex2 where "ex2 =
      \<lparr>sf_class = failure_class_of e2 False, sf_name = Some b,
        sf_result = Result_StepData \<lparr>sd_name = b, sd_exc_result = e2\<rparr>,
        sf_reason = failure_reason (failure_class_of e2 False) b e2,
        sf_exc_result = Some e2\<rparr>"
  define self2 where "self2 = snd (step a e1 self1)"
  define self3 where "self3 = snd (step b e2 self2)"
  have s1: "step a e1 self1 = (Returned (DeferredResult V_None (Some ex1)), self2)"
    unfolding self2_def ex1_def by (simp add: step_raises [OF f1 a1])
  have e2: "self2 = self1\<lparr>ran_step_stack :=
                (ran_step_stack self1)[length (ran_step_stack self1) - 1 := True],
              steps_ran := steps_ran self1 @ [a],
              objects := (objects self1)[agg := (objects self1 ! agg)\<lparr>failures :=
                 failures (objects self1 ! agg) @ [ex1]\<rparr>]\<rparr>"
    unfolding self2_def ex1_def by (simp add: step_raises [OF f1 a1])
  have a2: "aggregated_result self2 = Some agg"
    using a1 by (simp add: e2 aggregated_result_def)
  have o2: "objects self2 ! agg = AggregatedResult_init\<lparr>failures := [ex1]\<rparr>"
    by (simp add: e2 self1_def enter_def agg_def AggregatedResult_init_def)
  have l2: "agg < length (objects self2)"
    by (simp add: e2 self1_def enter_def agg_def)
  have t2: "steps_ran self2 = steps_ran self @ [a]"
    by (simp add: e2 self1_def enter_def)
  have s2: "step b e2 self2 = (Returned (DeferredResult V_None (Some ex2)), self3)"
    unfolding self3_def ex2_def by (simp add: step_raises [OF f2 a2])
  have e3: "self3 = self2\<lparr>ran_step_stack :=
                (ran_step_stack self2)[length (ran_step_stack self2) - 1 := True],
              steps_ran := steps_ran self2 @ [b],
              objects := (objects self2)[agg := (objects self2 ! agg)\<lparr>failures :=
                 failures (objects self2 ! agg) @ [ex2]\<rparr>]\<rparr>"
    unfolding self3_def ex2_def by (simp add: step_raises [OF f2 a2])
  have o3: "objects self3 ! agg = AggregatedResult_init\<lparr>failures := [ex1, ex2]\<rparr>"
    using l2 by (simp add: e3 o2)
  have t3: "steps_ran self3 = steps_ran self @ [a, b]"
    by (simp add: e3 t2)
  define r3 where "r3 = Returned (DeferredResult V_None (Some ex2))"
  have r3: "\<exists>v. r3 = Returned v"
    by (simp add: r3_def)
  have body: "seq (step a e1) (step b e2) self1 = (r3, self3)"
    by (simp add: seq_def s1 s2 r3_def)
  have agg: "begin_aggregate (\<lambda>agg. seq (step a e1) (step b e2)) self = (r3, exit self3)"
    using body by (simp add: begin_aggregate_def Let_def agg_def [symmetric] self1_def [symmetric])
  have oe: "objects (exit self3) = objects self3" "steps_ran (exit self3) = steps_ran self3"
    by (simp_all add: exit_def)
  have msg: "aggregate_reason_message (objects (mark_ran_step (exit self3)) ! agg) =
      Some (''2 out of 2 aggregated steps failed: ''
                   @ failure_reason (failure_class_of e1 False) a e1 @ '', ''
                   @ failure_reason (failure_class_of e2 False) b e2)"
    by (simp add: mark_ran_step_def oe o3 aggregate_reason_message_def reason_or_name_def
        failure_reason_nonempty AggregatedResult_init_def repr_int_2 ex1_def ex2_def)
  have top': "aggregated_result self = None" by (rule top)
  have d: "defer_results (seq (step a e1) (step b e2)) self =
           (Threw (StepFailure_exn
              \<lparr>sf_class = AggregatedStepFailure_class,
                sf_name = Some ''Aggregate step failure.'',
                sf_result = Result_AggregatedResult agg,
                sf_reason = ''2 out of 2 aggregated steps failed: ''
                   @ failure_reason (failure_class_of e1 False) a e1 @ '', ''
                   @ failure_reason (failure_class_of e2 False) b e2,
                sf_exc_result = None\<rparr>), mark_ran_step (exit self3))"
    using r3 msg
    by (auto simp: defer_results_def top' agg oe o3 agg_def [symmetric]
        new_AggregatedStepFailure_def Let_def AggregatedResult_init_def r3_def)
  show ?thesis
    by (simp add: d agg_def [symmetric] sf_had_timeout_def mark_ran_step_def oe t3)
qed


theorem defer_results_two_failing_steps_witness:
  "aggregated_result DEFER_CONTEXT_init = None
   \<and> ran_step_stack DEFER_CONTEXT_init \<noteq> []
   \<and> aggregated_result_stack DEFER_CONTEXT_init \<noteq> []
   \<and> step_fails (failed_with 1) \<and> step_fails (failed_with 2)
   \<and> raised_failure (fst (defer_results (seq (step ''A'' (failed_with 1))
           (step ''B'' (failed_with 2))) DEFER_CONTEXT_init)) =
       Some \<lparr>sf_class = AggregatedStepFailure_class,
             sf_name = Some ''Aggregate step failure.'',
             sf_result = Result_AggregatedResult 0,
             sf_reason =
               ''2 out of 2 aggregated steps failed: Step('A') (retcode: 1), Step('B') (retcode: 2)'',
             sf_exc_result = None\<rparr>
   \<and> steps_ran (snd (defer_results (seq (step ''A'' (failed_with 1))
           (step ''B'' (failed_with 2))) DEFER_CONTEXT_init)) = [''A'', ''B'']"
proof -
  have h1: "aggregated_result DEFER_CONTEXT_init = None"
    by (simp add: aggregated_result_def DEFER_CONTEXT_init_def)
  have h2: "ran_step_stack DEFER_CONTEXT_init \<noteq> []"
    and h3: "aggregated_result_stack DEFER_CONTEXT_init \<noteq> []"
    by (simp_all add: DEFER_CONTEXT_init_def)
  have f1: "step_fails (failed_with 1)" and f2: "step_fails (failed_with 2)"
    by (simp_all add: step_fails_def failed_with_def)
  have r1: "failure_reason (failure_class_of (failed_with 1) False) ''A'' (failed_with 1)
              = ''Step('A') (retcode: 1)''"
    by code_simp
  have r2: "failure_reason (failure_class_of (failed_with 2) False) ''B'' (failed_with 2)
              = ''Step('B') (retcode: 2)''"
    by code_simp
  have o: "objects DEFER_CONTEXT_init = []" "steps_ran DEFER_CONTEXT_init = []"
    by (simp_all add: DEFER_CONTEXT_init_def)
  note th = defer_results_two_failing_steps [OF h1 h2 h3 f1 f2, of "''A''" "''B''"]
  have c1: "raised_failure (fst (defer_results (seq (step ''A'' (failed_with 1))
           (step ''B'' (failed_with 2))) DEFER_CONTEXT_init)) =
       Some \<lparr>sf_class = AggregatedStepFailure_class,
             sf_name = Some ''Aggregate step failure.'',
             sf_result = Result_AggregatedResult 0,
             sf_reason =
               ''2 out of 2 aggregated steps failed: Step('A') (retcode: 1), Step('B') (retcode: 2)'',
             sf_exc_result = None\<rparr>"
    using th [THEN conjunct1] by (simp add: r1 r2 o)
  have c2: "steps_ran (snd (defer_results (seq (step ''A'' (failed_with 1))
           (step ''B'' (failed_with 2))) DEFER_CONTEXT_init)) = [''A'', ''B'']"
    using th [THEN conjunct2, THEN conjunct2] by (simp add: o)
  show ?thesis
    using h1 h2 h3 f1 f2 c1 c2 by blast
qed

text \<open>
  Claim C4 says that the aggregate's \<open>had_timeout\<close> is false unless a child timed out.
  The property reads the exception's own \<open>exc_result\<close>, which \<open>StepFailure.__init__\<close>
  sets only from a result that has one; an \<open>AggregatedResult\<close> has none. With A failing
  with retcode 1 and B with retcode 2 the property is \<open>None\<close>, not \<open>False\<close>, and it is
  still \<open>None\<close> when B timed out.
\<close>

theorem aggregate_had_timeout_not_from_children_counterexample:
  "map_option sf_had_timeout
     (raised_failure (fst (defer_results (seq (step ''A'' (failed_with 1))
        (step ''B'' (failed_with 2))) DEFER_CONTEXT_init))) = Some None
   \<and> map_option sf_had_timeout
     (raised_failure (fst (defer_results (seq (step ''A'' (failed_with 1))
        (step ''B'' (timed_out_with 2))) DEFER_CONTEXT_init))) = Some None
   \<and> map_option sf_reason
     (raised_failure (fst (defer_results (seq (step ''A'' (failed_with 1))
        (step ''B'' (timed_out_with 2))) DEFER_CONTEXT_init))) =
       Some ''2 out of 2 aggregated steps failed: Step('A') (retcode: 1), Infra Failure: Step('B') (timeout)''"
  by code_simp

lemma begin_aggregate_first_scope:
  "begin_aggregate body DEFER_CONTEXT_init =
     (case body 0 inside_defer_scope of (r, self2) \<Rightarrow> (r, exit self2))"
  by (simp add: begin_aggregate_def inside_defer_scope_def DEFER_CONTEXT_init_def Let_def)

text \<open>
  Claim C3 says that, inside a defer scope, a method wrapped by \<open>infer_composite_step\<close>
  that executes a step returns a \<open>DeferredResult\<close> and has its value recorded in the
  aggregate. The wrapper decides whether a step ran by reading the flag of the frame it
  pushed. A step that the method runs inside a \<open>defer_results\<close> scope of its own marks the
  frame of that inner scope, which is popped when the inner scope exits. The method below
  executes step \<open>x\<close> that way and returns 5: the wrapper returns the plain 5 and the outer
  aggregate records nothing. The same method running the step directly returns a
  \<open>DeferredResult\<close> and its value is recorded.
\<close>

theorem infer_composite_step_misses_step_in_nested_defer:
  "aggregated_result inside_defer_scope = Some 0
   \<and> fst (infer_composite_step False nested_defer_method inside_defer_scope) = Returned (V_Int 5)
   \<and> steps_ran (snd (infer_composite_step False nested_defer_method inside_defer_scope)) = [''x'']
   \<and> objects (snd (infer_composite_step False nested_defer_method inside_defer_scope)) ! 0
        = AggregatedResult_init
   \<and> fst (infer_composite_step False direct_step_method inside_defer_scope)
        = Returned (DeferredResult (V_Int 5) None)
   \<and> steps_ran (snd (infer_composite_step False direct_step_method inside_defer_scope)) = [''x'']
   \<and> objects (snd (infer_composite_step False direct_step_method inside_defer_scope)) ! 0
        = AggregatedResult_init\<lparr>successes := [V_Int 5]\<rparr>"
  by code_simp

subsection \<open>The context stack\<close>

lemma get_tuple_upd [simp]: "get_tuple (m(a \<mapsto> b)) k = (if k = a then b else get_tuple m k)"
  by (simp add: get_tuple_def)

lemma merge_prefixes_other:
  "k \<notin> fst ` set items \<Longrightarrow> merge_prefixes items new k = new k"
  by (induction items new rule: merge_prefixes.induct) auto

lemma merge_prefixes_key:
  "distinct (map fst items) \<Longrightarrow> (k, v) \<in> set items \<Longrightarrow> v \<noteq> [] \<Longrightarrow>
   merge_prefixes items new k = Some (v @ get_tuple new k)"
proof (induction items arbitrary: new)
  case Nil
  then show ?case by simp
next
  case (Cons a items)
  obtain k' v' where a: "a = (k', v')" by (cases a)
  show ?case
  proof (cases "k' = k")
    case True
    from Cons.prems(1) a True have notin: "k \<notin> fst ` set items" by simp
    with Cons.prems(2) a True have vv: "v' = v" by (auto simp: rev_image_eqI)
    show ?thesis using a True vv notin Cons.prems(3) by (simp add: merge_prefixes_other)
  next
    case False
    with Cons.prems a have d: "distinct (map fst items)" and m: "(k, v) \<in> set items" by auto
    have ih: "\<And>n. merge_prefixes items n k = Some (v @ get_tuple n k)"
      using Cons.IH [OF d m Cons.prems(3)] .
    show ?thesis using a False by (simp add: ih)
  qed
qed

lemma merge_suffixes_other:
  "k \<notin> fst ` set items \<Longrightarrow> merge_suffixes items new k = new k"
  by (induction items new rule: merge_suffixes.induct) auto

lemma merge_suffixes_key:
  "distinct (map fst items) \<Longrightarrow> (k, v) \<in> set items \<Longrightarrow> v \<noteq> [] \<Longrightarrow>
   merge_suffixes items new k = Some (get_tuple new k @ v)"
proof (induction items arbitrary: new)
  case Nil
  then show ?case by simp
next
  case (Cons a items)
  obtain k' v' where a: "a = (k', v')" by (cases a)
  show ?case
  proof (cases "k' = k")
    case True
    from Cons.prems(1) a True have notin: "k \<notin> fst ` set items" by simp
    with Cons.prems(2) a True have vv: "v' = v" by (auto simp: rev_image_eqI)
    show ?thesis using a True vv notin Cons.prems(3) by (simp add: merge_suffixes_other)
  next
    case False
    with Cons.prems a have d: "distinct (map fst items)" and m: "(k, v) \<in> set items" by auto
    have ih: "\<And>n. merge_suffixes items n k = Some (get_tuple n k @ v)"
      using Cons.IH [OF d m Cons.prems(3)] .
    show ?thesis using a False by (simp add: ih)
  qed
qed

lemma enter_env_prefixes:
  "context_enter args self = (r, self', to_pop) \<Longrightarrow> arg_env_prefixes args = Some pre \<Longrightarrow> pre \<noteq> [] \<Longrightarrow>
   env_prefixes self' = merge_prefixes pre (env_prefixes self)"
  by (auto simp: context_enter_def push_env_def push_env_suffixes_def push_env_prefixes_def
      push_infra_steps_def push_cwd_def env_prefixes_def Let_def split: option.splits if_splits sum.splits)

lemma enter_env_suffixes:
  "context_enter args self = (r, self', to_pop) \<Longrightarrow> arg_env_suffixes args = Some suf \<Longrightarrow> suf \<noteq> [] \<Longrightarrow>
   env_suffixes self' = merge_suffixes suf (env_suffixes self)"
  by (auto simp: context_enter_def push_env_def push_env_suffixes_def push_env_prefixes_def
      push_infra_steps_def push_cwd_def env_suffixes_def Let_def split: option.splits if_splits sum.splits)


text \<open>
  Claim C6: for a context push whose \<open>env_prefixes\<close> maps a key \<open>k\<close> to a non-empty
  sequence \<open>v\<close>, the \<open>env_prefixes[k]\<close> observable inside the scope is \<open>tuple(v)\<close>
  followed by the tuple registered for \<open>k\<close> before (the empty tuple when there was none);
  for \<open>env_suffixes\<close> the new values follow the registered ones.
\<close>

theorem env_affixes_prepend_and_append:
  assumes "context_enter args self = (None, self', to_pop)"
  shows "(\<forall>pre k v. arg_env_prefixes args = Some pre \<and> distinct (map fst pre)
            \<and> (k, v) \<in> set pre \<and> v \<noteq> []
          \<longrightarrow> env_prefixes self' k = Some (v @ get_tuple (env_prefixes self) k))
       \<and> (\<forall>suf k v. arg_env_suffixes args = Some suf \<and> distinct (map fst suf)
            \<and> (k, v) \<in> set suf \<and> v \<noteq> []
          \<longrightarrow> env_suffixes self' k = Some (get_tuple (env_suffixes self) k @ v))"
proof (intro conjI allI impI)
  fix pre k v
  assume h: "arg_env_prefixes args = Some pre \<and> distinct (map fst pre) \<and> (k, v) \<in> set pre \<and> v \<noteq> []"
  then have "pre \<noteq> []" by auto
  with assms h have "env_prefixes self' = merge_prefixes pre (env_prefixes self)"
    by (simp add: enter_env_prefixes)
  with h show "env_prefixes self' k = Some (v @ get_tuple (env_prefixes self) k)"
    by (simp add: merge_prefixes_key)
next
  fix suf k v
  assume h: "arg_env_suffixes args = Some suf \<and> distinct (map fst suf) \<and> (k, v) \<in> set suf \<and> v \<noteq> []"
  then have "suf \<noteq> []" by auto
  with assms h have "env_suffixes self' = merge_suffixes suf (env_suffixes self)"
    by (simp add: enter_env_suffixes)
  with h show "env_suffixes self' k = Some (get_tuple (env_suffixes self) k @ v)"
    by (simp add: merge_suffixes_key)
qed

lemma enter_affix_args:
  "context_enter affix_args outer_FOO =
     (None, fst (snd (context_enter affix_args outer_FOO)), [ENV_PREFIXES, ENV_SUFFIXES])"
  by (simp add: context_enter_def affix_args_def no_args_def outer_FOO_def ContextApi_init_def
      push_cwd_def push_infra_steps_def push_env_prefixes_def push_env_suffixes_def push_env_def)

theorem env_affixes_prepend_and_append_witness:
  "env_prefixes (fst (snd (context_enter affix_args outer_FOO))) ''FOO''
     = Some [''/pants'', ''/shirt'', ''/old'']
   \<and> env_suffixes (fst (snd (context_enter affix_args outer_FOO))) ''FOO''
     = Some [''/old'', ''/pants'', ''/shirt'']"
proof -
  note th = env_affixes_prepend_and_append [OF enter_affix_args]
  have hp: "arg_env_prefixes affix_args = Some [(''FOO'', [''/pants'', ''/shirt'']), (''BAR'', [])]
      \<and> distinct (map fst [(''FOO'', [''/pants'', ''/shirt'']), (''BAR'', [])])
      \<and> (''FOO'', [''/pants'', ''/shirt'']) \<in> set [(''FOO'', [''/pants'', ''/shirt'']), (''BAR'', [])]
      \<and> [''/pants'', ''/shirt''] \<noteq> []"
    by (simp add: affix_args_def no_args_def)
  have hs: "arg_env_suffixes affix_args = Some [(''FOO'', [''/pants'', ''/shirt''])]
      \<and> distinct (map fst [(''FOO'', [''/pants'', ''/shirt''])])
      \<and> (''FOO'', [''/pants'', ''/shirt'']) \<in> set [(''FOO'', [''/pants'', ''/shirt''])]
      \<and> [''/pants'', ''/shirt''] \<noteq> []"
    by (simp add: affix_args_def no_args_def)
  have p: "env_prefixes (fst (snd (context_enter affix_args outer_FOO))) ''FOO''
      = Some ([''/pants'', ''/shirt''] @ get_tuple (env_prefixes outer_FOO) ''FOO'')"
    using th hp by blast
  have s: "env_suffixes (fst (snd (context_enter affix_args outer_FOO))) ''FOO''
      = Some (get_tuple (env_suffixes outer_FOO) ''FOO'' @ [''/pants'', ''/shirt''])"
    using th hs by blast
  show ?thesis using p s
    by (simp add: outer_FOO_def ContextApi_init_def env_prefixes_def env_suffixes_def get_tuple_def)
qed


text \<open>
  Leaving a scope undoes what entering it pushed, and arguments that are all \<open>None\<close> or
  empty dictionaries push nothing.
\<close>

lemma context_exit_undoes_enter:
  "context_enter args self = (None, self1, to_pop) \<Longrightarrow> context_exit to_pop self1 = self"
  by (auto simp: context_enter_def push_cwd_def push_infra_steps_def push_env_prefixes_def
      push_env_suffixes_def push_env_def context_exit_def Let_def
      split: option.splits if_splits sum.splits)

lemma context_enter_noop:
  "arg_cwd args = None \<Longrightarrow> arg_infra_steps args = None \<Longrightarrow>
   arg_env_prefixes args \<in> {None, Some []} \<Longrightarrow> arg_env_suffixes args \<in> {None, Some []} \<Longrightarrow>
   arg_env args \<in> {None, Some []} \<Longrightarrow>
   context_enter args self = (None, self, [])"
  by (auto simp: context_enter_def push_cwd_def push_infra_steps_def push_env_prefixes_def
      push_env_suffixes_def push_env_def)

lemma bad_s: "\<not> env_value_ok ''%s''" by code_simp

lemma enter_bad:
  "context_enter cwd_and_bad_env self =
    (Some (ValueError (invalid_env_message ''%s'')), self\<lparr>self_cwd := self_cwd self @ [Some (Path ''/b'')]\<rparr>, [CWD])"
  by (simp add: context_enter_def cwd_and_bad_env_def no_args_def push_cwd_def
      push_infra_steps_def push_env_prefixes_def push_env_suffixes_def push_env_def bad_s)

lemma with_bad_env:
  "with_context cwd_and_bad_env body self =
     (Raised (ValueError (invalid_env_message ''%s'')),
      self\<lparr>self_cwd := self_cwd self @ [Some (Path ''/b'')]\<rparr>)"
  by (simp add: with_context_def enter_bad)

lemma enter_only_cwd:
  "context_enter only_cwd self =
     (None, self\<lparr>self_cwd := self_cwd self @ [Some (Path ''/a'')]\<rparr>, [CWD])"
  by (simp add: context_enter_def only_cwd_def no_args_def push_cwd_def
      push_infra_steps_def push_env_prefixes_def push_env_suffixes_def push_env_def)

lemma with_only_cwd:
  "with_context only_cwd body self =
     (case body (self\<lparr>self_cwd := self_cwd self @ [Some (Path ''/a'')]\<rparr>) of
        (r, self2) \<Rightarrow> (r, context_exit [CWD] self2))"
  by (simp add: with_context_def enter_only_cwd)


text \<open>
  Claim C5 says that whatever arguments are passed, leaving an \<open>api.context\<close> scope
  restores the observable cwd, env, prefixes, suffixes and infra\_step. The pushes happen
  before the \<open>try\<close>/\<open>finally\<close> that pops them, and the check of \<open>env\<close> comes
  last: when it raises ValueError the frames pushed for the other arguments stay on their
  stacks. With \<open>cwd\<close> and a rejected \<open>env\<close>, the statement raises and the observable
  cwd is the new one ever after; inside an enclosing scope, that scope's exit pops the
  leaked frame and leaves its own, so the enclosing scope does not restore the cwd either.
\<close>

theorem context_rejected_env_leaks_cwd:
  "cwd ContextApi_init = None
   \<and> with_context cwd_and_bad_env skip_body ContextApi_init
       = (Raised (ValueError (invalid_env_message ''%s'')),
          ContextApi_init\<lparr>self_cwd := [None, Some (Path ''/b'')]\<rparr>)
   \<and> cwd (snd (with_context cwd_and_bad_env skip_body ContextApi_init)) = Some (Path ''/b'')
   \<and> with_context only_cwd (with_context cwd_and_bad_env skip_body) ContextApi_init
       = (Raised (ValueError (invalid_env_message ''%s'')),
          ContextApi_init\<lparr>self_cwd := [None, Some (Path ''/a'')]\<rparr>)
   \<and> cwd (snd (with_context only_cwd (with_context cwd_and_bad_env skip_body) ContextApi_init))
       = Some (Path ''/a'')"
  by (simp add: with_only_cwd with_bad_env context_exit_def cwd_def ContextApi_init_def)

lemma ok_hole: "env_value_ok ''%(x)%%s''" by code_simp
lemma bad_format: "\<not> env_value_ok ''%format''" by code_simp
lemma ok_escaped: "env_value_ok ''%%format''" by code_simp

lemma enter_env_args:
  "context_enter (env_args v) self =
     (if env_value_ok v
      then (None, self\<lparr>self_env := self_env self @ [(last (self_env self))(''BAD'' \<mapsto> Some v)]\<rparr>, [ENV])
      else (Some (ValueError (invalid_env_message v)), self, []))"
  by (simp add: env_args_def context_enter_def no_args_def push_cwd_def push_infra_steps_def
      push_env_prefixes_def push_env_suffixes_def push_env_def)


text \<open>
  Claim C7 says that an \<open>env\<close> value with a sequential \<open>%\<close> interpolation raises
  ValueError at push time. \<open>%s\<close> and \<open>%format\<close> do, and \<open>%%format\<close> is accepted, as
  the module's example expects. The check formats \<open>'%(foo)s' + v\<close> with a
  \<open>defaultdict\<close>; a keyed specification whose conversion is \<open>%\<close>, as in
  \<open>%(x)%\<close>, looks the key up and consumes nothing, so the sequential \<open>%s\<close> after it
  finds an argument: the value \<open>%(x)%%s\<close> is accepted and pushed.
\<close>

theorem context_accepts_sequential_after_keyed_percent:
  "context_enter (env_args ''%(x)%%s'') ContextApi_init
     = (None, ContextApi_init\<lparr>self_env := [Map.empty, [''BAD'' \<mapsto> Some ''%(x)%%s'']]\<rparr>, [ENV])
   \<and> fst (context_enter (env_args ''%s'') ContextApi_init)
     = Some (ValueError (invalid_env_message ''%s''))
   \<and> fst (context_enter (env_args ''%format'') ContextApi_init)
     = Some (ValueError (invalid_env_message ''%format''))
   \<and> fst (context_enter (env_args ''%%format'') ContextApi_init) = None"
  by (simp add: enter_env_args ContextApi_init_def ok_hole bad_s bad_format ok_escaped)

subsection \<open>PathsClient.find\_longest\_prefix\<close>

text \<open>
  Claim C10 says that \<open>find_longest_prefix\<close> returns the longest index entry that equals
  the target or is a prefix of it followed by the separator, and returns
  \<open>(None, None)\<close> exactly when no entry qualifies. The code does not do this in two
  situations, both evaluated here on indexes that \<open>_initialize_with_recipe_api\<close> builds.
  First, when the target sorts after every entry the bisection lands "off the end" and the
  function returns \<open>(None, None)\<close> without looking at the last entry: with the single
  entry \<open>/a\<close> the target \<open>/a/b\<close> is not found. Second, only the entry just before the
  insertion point is examined: with entries \<open>/a\<close>, \<open>/a-b\<close>, \<open>/z\<close> the target
  \<open>/a/x\<close> is not found, because \<open>/a-b\<close> sorts between \<open>/a\<close> and \<open>/a/x\<close>.
\<close>

theorem find_longest_prefix_misses_containing_entry:
  "initialize_index [Path ''/a''] = Inr \<lparr>paths = [Path ''/a''], path_strings = [''/a'']\<rparr>
   \<and> contains_target ''/a/b'' ''/'' ''/a''
   \<and> find_longest_prefix \<lparr>paths = [Path ''/a''], path_strings = [''/a'']\<rparr> ''/a/b'' ''/''
       = Inr None
   \<and> initialize_index [Path ''/z'', Path ''/a-b'', Path ''/a'']
       = Inr \<lparr>paths = [Path ''/a'', Path ''/a-b'', Path ''/z''],
              path_strings = [''/a'', ''/a-b'', ''/z'']\<rparr>
   \<and> contains_target ''/a/x'' ''/'' ''/a''
   \<and> find_longest_prefix \<lparr>paths = [Path ''/a'', Path ''/a-b'', Path ''/z''],
                           path_strings = [''/a'', ''/a-b'', ''/z'']\<rparr> ''/a/x'' ''/''
       = Inr None"
  by code_simp

end
